theory Spec2Isabelle
  imports Main "HOL-Library.Word"
begin

section \<open>Personal planner: values, records and the outside world\<close>

text \<open>
  The planner is a Flask application (\<^verbatim>\<open>app.py\<close>) over three SQLAlchemy models
  (\<^verbatim>\<open>models.py\<close>). Each handler is embedded as a function from the request and the
  database to a response and the database after the request. An exception that leaves a
  handler is the response \<open>Unhandled\<close>; the session is then discarded, so the database
  is the one before the request.
\<close>

subsection \<open>Dates and instants\<close>

text \<open>
  A \<^verbatim>\<open>datetime.date\<close> is represented by its proleptic Gregorian ordinal
  (\<^verbatim>\<open>date.toordinal()\<close>): 1 is 0001-01-01 and \<open>MAXORDINAL\<close> is 9999-12-31.
  A \<^verbatim>\<open>datetime.datetime\<close> is its date, the microseconds since midnight and the
  UTC offset in minutes when it is offset-aware.
\<close>

type_synonym date = int

definition MAXORDINAL :: int where
  "MAXORDINAL = 3652059"

datatype datetime = DateTime (dt_date: date) (dt_micros: int) (dt_utcoffset: "int option")

datatype exn =
  ValueError | TypeError | AttributeError | OverflowError | StatementError | IntegrityError

text \<open>
  \<^verbatim>\<open>date + timedelta(days=n)\<close>: Python raises \<^verbatim>\<open>OverflowError\<close> when the result
  leaves the range of the type.
\<close>

definition date_add :: "date \<Rightarrow> int \<Rightarrow> exn + date" where
  "date_add d days =
     (let n = d + days in if 0 < n \<and> n \<le> MAXORDINAL then Inr n else Inl OverflowError)"

subsection \<open>What a request reads from outside the program\<close>

text \<open>
  The standard library's parsers and formatters, the random UUID, the clock and the
  database driver are not part of the source. They are parameters of every handler:
  \<^item> \<open>fromisoformat\<close> is \<^verbatim>\<open>datetime.fromisoformat\<close>, \<open>None\<close> where it raises
    \<^verbatim>\<open>ValueError\<close>;
  \<^item> \<open>strptime_ymd\<close> is \<^verbatim>\<open>datetime.strptime(s, '%Y-%m-%d')\<close>, \<open>None\<close> where it raises
    \<^verbatim>\<open>ValueError\<close>;
  \<^item> \<open>isoformat\<close> and \<open>date_isoformat\<close> are the \<^verbatim>\<open>isoformat()\<close> methods;
  \<^item> \<open>uuid4\<close> is the value \<^verbatim>\<open>uuid.uuid4()\<close> returns in this request;
  \<^item> \<open>now k\<close> is what \<^verbatim>\<open>datetime.now(timezone.utc)\<close> returns at the \<open>k\<close>-th row
    inserted by this request (the column default is called once for each row);
  \<^item> \<open>bind_datetime\<close> is what the database driver makes of a \<^verbatim>\<open>str\<close> bound to a
    \<^verbatim>\<open>DateTime\<close> column: the instant it stores, or \<open>None\<close> when it refuses the value
    (the database is chosen in \<^verbatim>\<open>config.py\<close>, which is not part of the source);
  \<^item> \<open>bind_integer\<close> is what the database driver makes of an \<^verbatim>\<open>int\<close> bound to an
    \<^verbatim>\<open>Integer\<close> column: \<open>None\<close> when it stores the value, the exception it raises
    when the value is outside the range of the column (\<^verbatim>\<open>sqlite3\<close> raises
    \<^verbatim>\<open>OverflowError\<close> outside the signed 64-bit range).
\<close>

record env =
  fromisoformat :: "string \<Rightarrow> datetime option"
  strptime_ymd :: "string \<Rightarrow> datetime option"
  isoformat :: "datetime \<Rightarrow> string"
  date_isoformat :: "date \<Rightarrow> string"
  uuid4 :: "128 word"
  now :: "nat \<Rightarrow> datetime"
  bind_datetime :: "string \<Rightarrow> datetime option"
  bind_integer :: "int \<Rightarrow> exn option"

text \<open>\<^verbatim>\<open>str(uuid)\<close>: 32 lower-case hexadecimal digits in groups of 8-4-4-4-12.\<close>

definition hexdigit :: "nat \<Rightarrow> char" where
  "hexdigit n = ''0123456789abcdef'' ! (n mod 16)"

fun hex :: "nat \<Rightarrow> nat \<Rightarrow> string" where
  "hex 0 v = []"
| "hex (Suc n) v = hex n (v div 16) @ [hexdigit v]"

definition uuid_str :: "128 word \<Rightarrow> string" where
  "uuid_str u =
     (let h = hex 32 (unat u)
      in take 8 h @ ''-'' @ take 4 (drop 8 h) @ ''-'' @ take 4 (drop 12 h) @ ''-'' @
         take 4 (drop 16 h) @ ''-'' @ drop 20 h)"

subsection \<open>Request payloads\<close>

text \<open>
  A JSON object is a record of its keys. Each key is missing, present with \<^verbatim>\<open>null\<close>,
  or present with a value of the type the API documents for it.
\<close>

datatype 'a fld = Missing | Null | Val 'a

text \<open>\<^verbatim>\<open>data.get(k)\<close>, \<^verbatim>\<open>data.get(k, default)\<close> and \<^verbatim>\<open>k in data\<close>.\<close>

fun dict_get :: "'a fld \<Rightarrow> 'a option" where
  "dict_get Missing = None"
| "dict_get Null = None"
| "dict_get (Val v) = Some v"

fun dict_get_default :: "'a fld \<Rightarrow> 'a option \<Rightarrow> 'a option" where
  "dict_get_default Missing d = d"
| "dict_get_default Null d = None"
| "dict_get_default (Val v) d = Some v"

fun dict_contains :: "'a fld \<Rightarrow> bool" where
  "dict_contains Missing = False"
| "dict_contains Null = True"
| "dict_contains (Val v) = True"

text \<open>Python truth values: \<^verbatim>\<open>None\<close>, \<^verbatim>\<open>''\<close> and \<^verbatim>\<open>False\<close> are false.\<close>

definition truthy_str :: "string option \<Rightarrow> bool" where
  "truthy_str v = (case v of None \<Rightarrow> False | Some s \<Rightarrow> s \<noteq> [])"

definition truthy_bool :: "bool option \<Rightarrow> bool" where
  "truthy_bool v = (case v of None \<Rightarrow> False | Some b \<Rightarrow> b)"

record task_payload =
  p_title :: "string fld"
  p_description :: "string fld"
  p_is_recurring :: "bool fld"
  p_recurrence_type :: "string fld"
  p_due_date :: "string fld"
  p_start_time :: "string fld"
  p_end_time :: "string fld"
  p_is_completed :: "bool fld"
  p_time_tracked_seconds :: "int fld"

subsection \<open>The Task model\<close>

text \<open>
  A row of the \<^verbatim>\<open>task\<close> table. Every column but the primary key is nullable in
  Python; \<^verbatim>\<open>title\<close> is declared \<^verbatim>\<open>nullable=False\<close>, which the database enforces
  when a row is written.
\<close>

record task =
  task_id :: nat
  task_title :: "string option"
  task_description :: "string option"
  task_is_recurring :: "bool option"
  task_is_completed :: "bool option"
  task_due_date :: "date option"
  task_start_time :: "datetime option"
  task_end_time :: "datetime option"
  task_time_tracked_seconds :: "int option"
  task_created_at :: "datetime option"
  task_recurrence_type :: "string option"
  task_recurrence_group_id :: "string option"

text \<open>
  The keyword arguments of a \<^verbatim>\<open>Task(...)\<close> constructor call: the object before it is
  flushed. The two calls of the source never pass \<^verbatim>\<open>id\<close>, \<^verbatim>\<open>is_completed\<close>,
  \<^verbatim>\<open>time_tracked_seconds\<close> or \<^verbatim>\<open>created_at\<close>. A \<^verbatim>\<open>DateTime\<close> attribute is given
  either a \<^verbatim>\<open>datetime\<close> object or a \<^verbatim>\<open>str\<close>.
\<close>

datatype dt_arg = DT datetime | Text string

record new_task =
  n_title :: "string option"
  n_description :: "string option"
  n_is_recurring :: "bool option"
  n_recurrence_type :: "string option"
  n_recurrence_group_id :: "string option"
  n_due_date :: "date option"
  n_start_time :: "dt_arg option"
  n_end_time :: "dt_arg option"

text \<open>\<^verbatim>\<open>Task.to_dict\<close>: dates and instants are serialised with \<^verbatim>\<open>isoformat()\<close>.\<close>

record task_dict =
  d_id :: nat
  d_title :: "string option"
  d_description :: "string option"
  d_is_recurring :: "bool option"
  d_recurrence_type :: "string option"
  d_is_completed :: "bool option"
  d_due_date :: "string option"
  d_start_time :: "string option"
  d_end_time :: "string option"
  d_time_tracked_seconds :: "int option"
  d_created_at :: "string option"
  d_recurrence_group_id :: "string option"

definition to_dict :: "env \<Rightarrow> task \<Rightarrow> task_dict" where
  "to_dict env self =
     \<lparr> d_id = task_id self,
       d_title = task_title self,
       d_description = task_description self,
       d_is_recurring = task_is_recurring self,
       d_recurrence_type = task_recurrence_type self,
       d_is_completed = task_is_completed self,
       d_due_date = map_option (date_isoformat env) (task_due_date self),
       d_start_time = map_option (isoformat env) (task_start_time self),
       d_end_time = map_option (isoformat env) (task_end_time self),
       d_time_tracked_seconds = task_time_tracked_seconds self,
       d_created_at = map_option (isoformat env) (task_created_at self),
       d_recurrence_group_id = task_recurrence_group_id self \<rparr>"

subsection \<open>The database\<close>

datatype 'a response =
    Ok200 'a
  | Created201 'a
  | NoContent204
  | BadRequest400 string
  | NotFound404
  | Unhandled exn

text \<open>The primary key of a new row: one more than the largest key of the table.\<close>

primrec max_id :: "nat list \<Rightarrow> nat" where
  "max_id [] = 0"
| "max_id (i # ids) = max i (max_id ids)"

definition next_id :: "nat list \<Rightarrow> nat" where
  "next_id ids = Suc (max_id ids)"

text \<open>
  The value the driver stores for a \<^verbatim>\<open>DateTime\<close> attribute: a \<^verbatim>\<open>datetime\<close> as it
  is, a \<^verbatim>\<open>str\<close> as the driver converts it, failing the statement when it refuses.
\<close>

definition bind_dt :: "env \<Rightarrow> dt_arg option \<Rightarrow> exn + datetime option" where
  "bind_dt env v =
     (case v of
        None \<Rightarrow> Inr None
      | Some (DT d) \<Rightarrow> Inr (Some d)
      | Some (Text s) \<Rightarrow>
          (case bind_datetime env s of None \<Rightarrow> Inl StatementError | Some d \<Rightarrow> Inr (Some d)))"

text \<open>A column default applies when the INSERT has no value for the column.\<close>

definition column_default :: "'a \<Rightarrow> 'a option \<Rightarrow> 'a option" where
  "column_default d v = (case v of None \<Rightarrow> Some d | Some x \<Rightarrow> Some x)"

text \<open>
  The INSERT of one \<^verbatim>\<open>Task\<close>: the key is assigned, the column defaults of
  \<^verbatim>\<open>models.py\<close> fill what the constructor did not set (\<^verbatim>\<open>is_completed\<close>,
  \<^verbatim>\<open>time_tracked_seconds\<close>, \<^verbatim>\<open>created_at\<close>, and \<^verbatim>\<open>is_recurring\<close> when it
  is \<^verbatim>\<open>None\<close>), and the NOT NULL constraint on \<^verbatim>\<open>title\<close> is checked.
\<close>

definition insert_task :: "env \<Rightarrow> nat \<Rightarrow> new_task \<Rightarrow> task list \<Rightarrow> exn + task" where
  "insert_task env k t rows =
     (case bind_dt env (n_start_time t) of
        Inl e \<Rightarrow> Inl e
      | Inr start_time \<Rightarrow>
          (case bind_dt env (n_end_time t) of
             Inl e \<Rightarrow> Inl e
           | Inr end_time \<Rightarrow>
               if n_title t = None then Inl IntegrityError
               else Inr \<lparr> task_id = next_id (map task_id rows),
                          task_title = n_title t,
                          task_description = n_description t,
                          task_is_recurring = column_default False (n_is_recurring t),
                          task_is_completed = Some False,
                          task_due_date = n_due_date t,
                          task_start_time = start_time,
                          task_end_time = end_time,
                          task_time_tracked_seconds = Some 0,
                          task_created_at = Some (now env k),
                          task_recurrence_type = n_recurrence_type t,
                          task_recurrence_group_id = n_recurrence_group_id t \<rparr>))"

text \<open>
  The pending objects of a session are inserted in the order they were added; the first
  failure aborts the whole flush.
\<close>

fun insert_all :: "env \<Rightarrow> nat \<Rightarrow> new_task list \<Rightarrow> task list \<Rightarrow> exn + task list" where
  "insert_all env k [] rows = Inr rows"
| "insert_all env k (t # ts) rows =
     (case insert_task env k t rows of
        Inl e \<Rightarrow> Inl e
      | Inr row \<Rightarrow> insert_all env (Suc k) ts (rows @ [row]))"


section \<open>Helper functions of \<^verbatim>\<open>app.py\<close>\<close>

text \<open>\<^verbatim>\<open>s.replace('Z', '+00:00')\<close> replaces every occurrence.\<close>

definition replace_Z :: "string \<Rightarrow> string" where
  "replace_Z s = concat (map (\<lambda>c. if c = CHR ''Z'' then ''+00:00'' else [c]) s)"

text \<open>
  \<^verbatim>\<open>parse_date\<close>: empty input gives \<^verbatim>\<open>None\<close>; otherwise the ISO parser is tried, and
  on its \<^verbatim>\<open>ValueError\<close> the \<^verbatim>\<open>'%Y-%m-%d'\<close> parser, whose \<^verbatim>\<open>ValueError\<close> is not
  caught.
\<close>

definition parse_date :: "env \<Rightarrow> string option \<Rightarrow> exn + date option" where
  "parse_date env date_str =
     (case date_str of
        None \<Rightarrow> Inr None
      | Some s \<Rightarrow>
          if s = [] then Inr None
          else (case fromisoformat env (replace_Z s) of
                  Some dt \<Rightarrow> Inr (Some (dt_date dt))
                | None \<Rightarrow>
                    (case strptime_ymd env s of
                       Some dt \<Rightarrow> Inr (Some (dt_date dt))
                     | None \<Rightarrow> Inl ValueError)))"

definition parse_datetime :: "env \<Rightarrow> string option \<Rightarrow> exn + datetime option" where
  "parse_datetime env datetime_str =
     (case datetime_str of
        None \<Rightarrow> Inr None
      | Some s \<Rightarrow>
          if s = [] then Inr None
          else (case fromisoformat env (replace_Z s) of
                  Some dt \<Rightarrow> Inr (Some dt)
                | None \<Rightarrow> Inl ValueError))"

text \<open>
  The table \<^verbatim>\<open>recurrence_periods\<close> with its \<^verbatim>\<open>.get\<close>: the period in days and the
  number of instances.
\<close>

definition recurrence_periods :: "string \<Rightarrow> (int \<times> nat) option" where
  "recurrence_periods c =
     (if c = ''daily'' then Some (1, 90)
      else if c = ''weekly'' then Some (7, 12)
      else None)"

text \<open>
  \<^verbatim>\<open>Task(**task_data, due_date=new_due_date)\<close>, where \<^verbatim>\<open>task_data\<close> is the dictionary
  of the original task without the keys \<^verbatim>\<open>id\<close>, \<^verbatim>\<open>due_date\<close>, \<^verbatim>\<open>is_completed\<close>,
  \<^verbatim>\<open>time_tracked_seconds\<close> and \<^verbatim>\<open>created_at\<close>. The dictionary holds the start and
  end instants as the strings \<^verbatim>\<open>to_dict\<close> made of them.
\<close>

definition sibling :: "task_dict \<Rightarrow> date \<Rightarrow> new_task" where
  "sibling task_data new_due_date =
     \<lparr> n_title = d_title task_data,
       n_description = d_description task_data,
       n_is_recurring = d_is_recurring task_data,
       n_recurrence_type = d_recurrence_type task_data,
       n_recurrence_group_id = d_recurrence_group_id task_data,
       n_due_date = Some new_due_date,
       n_start_time = map_option Text (d_start_time task_data),
       n_end_time = map_option Text (d_end_time task_data) \<rparr>"

text \<open>
  \<^verbatim>\<open>original_task.due_date + config['delta'] * i\<close>; adding to \<^verbatim>\<open>None\<close> is a
  \<^verbatim>\<open>TypeError\<close>.
\<close>

definition due_plus :: "date option \<Rightarrow> int \<Rightarrow> exn + date" where
  "due_plus due days = (case due of None \<Rightarrow> Inl TypeError | Some d \<Rightarrow> date_add d days)"

text \<open>The loop \<^verbatim>\<open>for i in range(1, config['count'] + 1)\<close> over the list of its indices.\<close>

fun sibling_loop :: "task_dict \<Rightarrow> date option \<Rightarrow> int \<Rightarrow> nat list \<Rightarrow> exn + new_task list" where
  "sibling_loop task_data due delta [] = Inr []"
| "sibling_loop task_data due delta (i # js) =
     (case due_plus due (delta * int i) of
        Inl e \<Rightarrow> Inl e
      | Inr new_due_date \<Rightarrow>
          (case sibling_loop task_data due delta js of
             Inl e \<Rightarrow> Inl e
           | Inr rest \<Rightarrow> Inr (sibling task_data new_due_date # rest)))"

text \<open>\<^verbatim>\<open>_create_recurring_tasks\<close>: the objects it adds to the session, in order.\<close>

definition create_recurring_tasks :: "env \<Rightarrow> task \<Rightarrow> exn + new_task list" where
  "create_recurring_tasks env original_task =
     (if \<not> truthy_bool (task_is_recurring original_task)
         \<or> \<not> truthy_str (task_recurrence_type original_task)
      then Inr []
      else
        (case task_recurrence_type original_task of
           None \<Rightarrow> Inr []
         | Some cadence \<Rightarrow>
             (case recurrence_periods cadence of
                None \<Rightarrow> Inr []
              | Some (delta, count) \<Rightarrow>
                  sibling_loop (to_dict env original_task) (task_due_date original_task)
                    delta [1..<Suc count])))"


section \<open>The Event and JournalEntry models\<close>

record event =
  event_id :: nat
  event_title :: "string option"
  event_description :: "string option"
  event_start_time :: "datetime option"
  event_end_time :: "datetime option"
  event_created_at :: "datetime option"

record event_payload =
  e_title :: "string fld"
  e_description :: "string fld"
  e_start_time :: "string fld"
  e_end_time :: "string fld"

record event_dict =
  ed_id :: nat
  ed_title :: "string option"
  ed_description :: "string option"
  ed_start_time :: string
  ed_end_time :: "string option"
  ed_created_at :: "string option"

text \<open>
  \<^verbatim>\<open>Event.to_dict\<close> calls \<^verbatim>\<open>self.start_time.isoformat()\<close> without a guard: on
  \<^verbatim>\<open>None\<close> that is an \<^verbatim>\<open>AttributeError\<close>.
\<close>

definition event_to_dict :: "env \<Rightarrow> event \<Rightarrow> exn + event_dict" where
  "event_to_dict env self =
     (case event_start_time self of
        None \<Rightarrow> Inl AttributeError
      | Some start \<Rightarrow>
          Inr \<lparr> ed_id = event_id self,
                ed_title = event_title self,
                ed_description = event_description self,
                ed_start_time = isoformat env start,
                ed_end_time = map_option (isoformat env) (event_end_time self),
                ed_created_at = map_option (isoformat env) (event_created_at self) \<rparr>)"

text \<open>The content of a journal entry is any JSON value.\<close>

datatype json =
  JNull | JBool bool | JInt int | JStr string | JArr "json list" | JObj "(string \<times> json) list"

fun truthy_json :: "json \<Rightarrow> bool" where
  "truthy_json JNull = False"
| "truthy_json (JBool b) = b"
| "truthy_json (JInt n) = (n \<noteq> 0)"
| "truthy_json (JStr s) = (s \<noteq> [])"
| "truthy_json (JArr xs) = (xs \<noteq> [])"
| "truthy_json (JObj kvs) = (kvs \<noteq> [])"

record journal_entry =
  entry_id :: nat
  entry_type :: "string option"
  entry_content :: json
  entry_timestamp :: "datetime option"

text \<open>The key \<^verbatim>\<open>content\<close> is missing (\<open>None\<close>) or present with a JSON value.\<close>

record journal_payload =
  j_entry_type :: "string fld"
  j_content :: "json option"
  j_timestamp :: "string fld"

definition content_get :: "json option \<Rightarrow> json" where
  "content_get v = (case v of None \<Rightarrow> JNull | Some c \<Rightarrow> c)"

record journal_dict =
  jd_id :: nat
  jd_entry_type :: "string option"
  jd_content :: json
  jd_timestamp :: string

definition journal_to_dict :: "env \<Rightarrow> journal_entry \<Rightarrow> exn + journal_dict" where
  "journal_to_dict env self =
     (case entry_timestamp self of
        None \<Rightarrow> Inl AttributeError
      | Some ts \<Rightarrow>
          Inr \<lparr> jd_id = entry_id self,
                jd_entry_type = entry_type self,
                jd_content = entry_content self,
                jd_timestamp = isoformat env ts \<rparr>)"

record db =
  tasks :: "task list"
  events :: "event list"
  journal :: "journal_entry list"

section \<open>Task endpoints\<close>

text \<open>
  \<^verbatim>\<open>POST /tasks\<close>. The template is flushed first (it receives its key and defaults),
  then \<^verbatim>\<open>_create_recurring_tasks\<close> adds the siblings, and the commit inserts them. Any
  exception on the way leaves the database as it was.
\<close>

definition create_task :: "env \<Rightarrow> task_payload \<Rightarrow> db \<Rightarrow> task_dict response \<times> db" where
  "create_task env data st =
     (case parse_date env (dict_get (p_due_date data)) of
        Inl e \<Rightarrow> (Unhandled e, st)
      | Inr due_date \<Rightarrow>
          if \<not> truthy_str (dict_get (p_title data)) \<or> due_date = None
          then (BadRequest400 ''Title and due_date are required'', st)
          else
            let is_recurring = dict_get_default (p_is_recurring data) (Some False);
                recurrence_group_id =
                  (if truthy_bool is_recurring then Some (uuid_str (uuid4 env)) else None)
            in
            (case parse_datetime env (dict_get (p_start_time data)) of
               Inl e \<Rightarrow> (Unhandled e, st)
             | Inr start_time \<Rightarrow>
                 (case parse_datetime env (dict_get (p_end_time data)) of
                    Inl e \<Rightarrow> (Unhandled e, st)
                  | Inr end_time \<Rightarrow>
                      (case insert_task env 0
                              \<lparr> n_title = dict_get (p_title data),
                                n_description = dict_get (p_description data),
                                n_is_recurring = is_recurring,
                                n_recurrence_type = dict_get (p_recurrence_type data),
                                n_recurrence_group_id = recurrence_group_id,
                                n_due_date = due_date,
                                n_start_time = map_option DT start_time,
                                n_end_time = map_option DT end_time \<rparr>
                              (tasks st) of
                         Inl e \<Rightarrow> (Unhandled e, st)
                       | Inr new_task \<Rightarrow>
                           (case create_recurring_tasks env new_task of
                              Inl e \<Rightarrow> (Unhandled e, st)
                            | Inr pending \<Rightarrow>
                                (case insert_all env 1 pending (tasks st @ [new_task]) of
                                   Inl e \<Rightarrow> (Unhandled e, st)
                                 | Inr rows \<Rightarrow>
                                     (Created201 (to_dict env new_task),
                                      st\<lparr>tasks := rows\<rparr>)))))))"

text \<open>\<^verbatim>\<open>Task.query.get_or_404(task_id)\<close>: the row with this primary key, if any.\<close>

definition get_or_404 :: "nat \<Rightarrow> task list \<Rightarrow> task option" where
  "get_or_404 tid rows = find (\<lambda>r. task_id r = tid) rows"

text \<open>
  The tracked duration of a payload, as the driver binds it to the \<^verbatim>\<open>Integer\<close> column
  \<^verbatim>\<open>time_tracked_seconds\<close> when the UPDATE is sent: the exception it raises, if any.
  A \<^verbatim>\<open>null\<close> is bound as \<^verbatim>\<open>NULL\<close>; a key the payload does not have leaves the
  attribute as it was loaded, and the column is not written.
\<close>

definition bind_tracked :: "env \<Rightarrow> int fld \<Rightarrow> exn option" where
  "bind_tracked env v = (case v of Val n \<Rightarrow> bind_integer env n | Null \<Rightarrow> None | Missing \<Rightarrow> None)"

text \<open>
  \<^verbatim>\<open>PUT /tasks/<id>\<close>. The four assignments take the payload's value when the key is
  present (also when it is \<^verbatim>\<open>null\<close>) and the stored value otherwise. The commit is
  an UPDATE of these four columns in the row with this key. It fails, and writes
  nothing, in two ways: the driver raises when it binds a tracked duration outside the
  range of the column, before the statement reaches the database; and the database
  refuses a statement that would leave \<^verbatim>\<open>title\<close> without a value. Neither exception
  is caught by the handler.
\<close>

definition update_task :: "env \<Rightarrow> nat \<Rightarrow> task_payload \<Rightarrow> db \<Rightarrow> task_dict response \<times> db" where
  "update_task env tid data st =
     (case get_or_404 tid (tasks st) of
        None \<Rightarrow> (NotFound404, st)
      | Some task \<Rightarrow>
          let task' = task
                \<lparr> task_title := dict_get_default (p_title data) (task_title task),
                  task_description := dict_get_default (p_description data) (task_description task),
                  task_is_completed := dict_get_default (p_is_completed data) (task_is_completed task),
                  task_time_tracked_seconds :=
                    dict_get_default (p_time_tracked_seconds data) (task_time_tracked_seconds task) \<rparr>
          in (case bind_tracked env (p_time_tracked_seconds data) of
                Some e \<Rightarrow> (Unhandled e, st)
              | None \<Rightarrow>
                  if task_title task' = None then (Unhandled IntegrityError, st)
                  else (Ok200 (to_dict env task'),
                        st\<lparr>tasks :=
                             map (\<lambda>r. if task_id r = tid
                                      then r\<lparr> task_title := task_title task',
                                             task_description := task_description task',
                                             task_is_completed := task_is_completed task',
                                             task_time_tracked_seconds :=
                                               task_time_tracked_seconds task' \<rparr>
                                      else r)
                               (tasks st)\<rparr>)))"

text \<open>
  \<^verbatim>\<open>DELETE /tasks/<id>\<close>. \<open>series_scope\<close> is the condition of the handler's
  \<^verbatim>\<open>if\<close>; \<open>in_series_from\<close> is the filter of its bulk delete, with SQL's comparison:
  a row without a due date, or a comparison against no due date, never matches.
\<close>

definition series_scope :: "string option \<Rightarrow> task \<Rightarrow> bool" where
  "series_scope apply_to task =
     (apply_to = Some ''all_future'' \<and> truthy_str (task_recurrence_group_id task))"

definition sql_ge :: "date option \<Rightarrow> date option \<Rightarrow> bool" where
  "sql_ge a b = (case (a, b) of (Some x, Some y) \<Rightarrow> y \<le> x | _ \<Rightarrow> False)"

definition in_series_from :: "task \<Rightarrow> task \<Rightarrow> bool" where
  "in_series_from task r =
     (task_recurrence_group_id r = task_recurrence_group_id task
      \<and> sql_ge (task_due_date r) (task_due_date task))"

definition delete_task :: "nat \<Rightarrow> string option \<Rightarrow> db \<Rightarrow> unit response \<times> db" where
  "delete_task tid apply_to st =
     (case get_or_404 tid (tasks st) of
        None \<Rightarrow> (NotFound404, st)
      | Some task \<Rightarrow>
          if series_scope apply_to task
          then (NoContent204, st\<lparr>tasks := filter (\<lambda>r. \<not> in_series_from task r) (tasks st)\<rparr>)
          else (NoContent204, st\<lparr>tasks := filter (\<lambda>r. task_id r \<noteq> task_id task) (tasks st)\<rparr>))"

text \<open>
  What the endpoints maintain of the tables: the primary keys of the tasks are distinct,
  every task has a title and a due date, and every event has a title and a start instant.
  Title and start instant are NOT NULL columns; the due date is nullable, but no handler
  stores a task without one.
\<close>

definition store_ok :: "db \<Rightarrow> bool" where
  "store_ok st =
     (distinct (map task_id (tasks st))
      \<and> list_all (\<lambda>t. task_title t \<noteq> None \<and> task_due_date t \<noteq> None) (tasks st)
      \<and> list_all (\<lambda>e. event_title e \<noteq> None \<and> event_start_time e \<noteq> None) (events st))"

section \<open>Event and journal endpoints\<close>

text \<open>\<^verbatim>\<open>POST /events\<close>; \<^verbatim>\<open>title\<close> and \<^verbatim>\<open>start_time\<close> are NOT NULL columns.\<close>

definition create_event :: "env \<Rightarrow> event_payload \<Rightarrow> db \<Rightarrow> event_dict response \<times> db" where
  "create_event env data st =
     (if \<not> truthy_str (dict_get (e_title data)) \<or> \<not> truthy_str (dict_get (e_start_time data))
      then (BadRequest400 ''Title and start_time are required'', st)
      else
        (case parse_datetime env (dict_get (e_start_time data)) of
           Inl e \<Rightarrow> (Unhandled e, st)
         | Inr start_time \<Rightarrow>
             (case parse_datetime env (dict_get (e_end_time data)) of
                Inl e \<Rightarrow> (Unhandled e, st)
              | Inr end_time \<Rightarrow>
                  let new_event =
                        \<lparr> event_id = next_id (map event_id (events st)),
                          event_title = dict_get (e_title data),
                          event_description = dict_get (e_description data),
                          event_start_time = start_time,
                          event_end_time = end_time,
                          event_created_at = Some (now env 0) \<rparr>
                  in if event_title new_event = None \<or> event_start_time new_event = None
                     then (Unhandled IntegrityError, st)
                     else (case event_to_dict env new_event of
                             Inl e \<Rightarrow> (Unhandled e, st\<lparr>events := events st @ [new_event]\<rparr>)
                           | Inr body \<Rightarrow>
                               (Created201 body, st\<lparr>events := events st @ [new_event]\<rparr>)))))"

definition get_event_or_404 :: "nat \<Rightarrow> event list \<Rightarrow> event option" where
  "get_event_or_404 eid rows = find (\<lambda>r. event_id r = eid) rows"

text \<open>
  \<^verbatim>\<open>PUT /events/<id>\<close>. \<^verbatim>\<open>start_time\<close> is replaced only by a parsed instant;
  \<^verbatim>\<open>end_time\<close> is replaced whenever the key is in the payload.
\<close>

definition update_event :: "env \<Rightarrow> nat \<Rightarrow> event_payload \<Rightarrow> db \<Rightarrow> event_dict response \<times> db" where
  "update_event env eid data st =
     (case get_event_or_404 eid (events st) of
        None \<Rightarrow> (NotFound404, st)
      | Some event \<Rightarrow>
          let event1 = event
                \<lparr> event_title := dict_get_default (e_title data) (event_title event),
                  event_description :=
                    dict_get_default (e_description data) (event_description event) \<rparr>
          in
          (case parse_datetime env (dict_get (e_start_time data)) of
             Inl e \<Rightarrow> (Unhandled e, st)
           | Inr new_start_time \<Rightarrow>
               let event2 =
                     (case new_start_time of
                        None \<Rightarrow> event1
                      | Some t \<Rightarrow> event1\<lparr>event_start_time := Some t\<rparr>)
               in
               (case (if dict_contains (e_end_time data)
                      then map_sum id (\<lambda>t. event2\<lparr>event_end_time := t\<rparr>)
                             (parse_datetime env (dict_get (e_end_time data)))
                      else Inr event2) of
                  Inl e \<Rightarrow> (Unhandled e, st)
                | Inr event3 \<Rightarrow>
                    if event_title event3 = None \<or> event_start_time event3 = None
                    then (Unhandled IntegrityError, st)
                    else
                      let st' = st\<lparr>events :=
                                  map (\<lambda>r. if event_id r = eid
                                           then r\<lparr> event_title := event_title event3,
                                                  event_description := event_description event3,
                                                  event_start_time := event_start_time event3,
                                                  event_end_time := event_end_time event3 \<rparr>
                                           else r)
                                    (events st)\<rparr>
                      in (case event_to_dict env event3 of
                            Inl e \<Rightarrow> (Unhandled e, st')
                          | Inr body \<Rightarrow> (Ok200 body, st')))))"

text \<open>
  \<^verbatim>\<open>POST /journal\<close>; the timestamp is the parsed one, or the current time when none
  was given.
\<close>

definition create_journal_entry ::
  "env \<Rightarrow> journal_payload \<Rightarrow> db \<Rightarrow> journal_dict response \<times> db" where
  "create_journal_entry env data st =
     (if \<not> truthy_str (dict_get (j_entry_type data)) \<or> \<not> truthy_json (content_get (j_content data))
      then (BadRequest400 ''entry_type and content are required'', st)
      else
        (case parse_datetime env (dict_get (j_timestamp data)) of
           Inl e \<Rightarrow> (Unhandled e, st)
         | Inr ts \<Rightarrow>
             let new_entry =
                   \<lparr> entry_id = next_id (map entry_id (journal st)),
                     entry_type = dict_get (j_entry_type data),
                     entry_content = content_get (j_content data),
                     entry_timestamp = (case ts of None \<Rightarrow> Some (now env 0) | Some t \<Rightarrow> Some t) \<rparr>
             in if entry_type new_entry = None then (Unhandled IntegrityError, st)
                else (case journal_to_dict env new_entry of
                        Inl e \<Rightarrow> (Unhandled e, st\<lparr>journal := journal st @ [new_entry]\<rparr>)
                      | Inr body \<Rightarrow>
                          (Created201 body, st\<lparr>journal := journal st @ [new_entry]\<rparr>))))"


section \<open>A reference instance of the outside world\<close>

text \<open>
  The theorems below hold for every \<open>env\<close>. To evaluate the handlers on concrete
  requests, \<open>ref_env\<close> implements the library on the forms the examples use:
  \<^verbatim>\<open>YYYY-MM-DD\<close>, optionally followed by \<^verbatim>\<open>THH:MM:SS\<close> and an offset
  \<^verbatim>\<open>+HH:MM\<close> or \<^verbatim>\<open>-HH:MM\<close>. The calendar arithmetic is that of Python's
  \<^verbatim>\<open>datetime\<close> module.
\<close>

definition digit_val :: "char \<Rightarrow> nat option" where
  "digit_val c =
     (let n = (of_char c :: nat) in if 48 \<le> n \<and> n \<le> 57 then Some (n - 48) else None)"

fun number_acc :: "nat \<Rightarrow> string \<Rightarrow> nat option" where
  "number_acc acc [] = Some acc"
| "number_acc acc (c # cs) =
     (case digit_val c of None \<Rightarrow> None | Some v \<Rightarrow> number_acc (10 * acc + v) cs)"

definition number :: "string \<Rightarrow> nat option" where
  "number s = (if s = [] then None else number_acc 0 s)"

definition is_leap :: "nat \<Rightarrow> bool" where
  "is_leap y = (y mod 4 = 0 \<and> (y mod 100 \<noteq> 0 \<or> y mod 400 = 0))"

definition days_in_month :: "nat \<Rightarrow> nat \<Rightarrow> nat" where
  "days_in_month y m =
     (if m = 2 then (if is_leap y then 29 else 28)
      else if m = 4 \<or> m = 6 \<or> m = 9 \<or> m = 11 then 30
      else 31)"

definition days_before_month :: "nat \<Rightarrow> nat \<Rightarrow> nat" where
  "days_before_month y m =
     [0, 31, 59, 90, 120, 151, 181, 212, 243, 273, 304, 334] ! (m - 1)
     + (if 2 < m \<and> is_leap y then 1 else 0)"

definition days_before_year :: "nat \<Rightarrow> nat" where
  "days_before_year y = (y - 1) * 365 + (y - 1) div 4 - (y - 1) div 100 + (y - 1) div 400"

definition ymd2ord :: "nat \<Rightarrow> nat \<Rightarrow> nat \<Rightarrow> date option" where
  "ymd2ord y m d =
     (if 1 \<le> y \<and> y \<le> 9999 \<and> 1 \<le> m \<and> m \<le> 12 \<and> 1 \<le> d \<and> d \<le> days_in_month y m
      then Some (int (days_before_year y + days_before_month y m + d))
      else None)"

definition parse_ymd :: "string \<Rightarrow> date option" where
  "parse_ymd s =
     (if length s = 10 \<and> s ! 4 = CHR ''-'' \<and> s ! 7 = CHR ''-''
      then (case (number (take 4 s), number (take 2 (drop 5 s)), number (drop 8 s)) of
              (Some y, Some m, Some d) \<Rightarrow> ymd2ord y m d
            | _ \<Rightarrow> None)
      else None)"

definition parse_hms :: "string \<Rightarrow> int option" where
  "parse_hms s =
     (if length s = 8 \<and> s ! 2 = CHR '':'' \<and> s ! 5 = CHR '':''
      then (case (number (take 2 s), number (take 2 (drop 3 s)), number (drop 6 s)) of
              (Some h, Some m, Some sec) \<Rightarrow>
                if h < 24 \<and> m < 60 \<and> sec < 60
                then Some (int (h * 3600 + m * 60 + sec) * 1000000) else None
            | _ \<Rightarrow> None)
      else None)"

definition parse_offset :: "string \<Rightarrow> int option" where
  "parse_offset s =
     (if length s = 6 \<and> (s ! 0 = CHR ''+'' \<or> s ! 0 = CHR ''-'') \<and> s ! 3 = CHR '':''
      then (case (number (take 2 (drop 1 s)), number (drop 4 s)) of
              (Some h, Some m) \<Rightarrow>
                if h < 24 \<and> m < 60
                then Some ((if s ! 0 = CHR ''-'' then - 1 else 1) * int (h * 60 + m)) else None
            | _ \<Rightarrow> None)
      else None)"

definition ref_fromisoformat :: "string \<Rightarrow> datetime option" where
  "ref_fromisoformat s =
     (case parse_ymd (take 10 s) of
        None \<Rightarrow> None
      | Some d \<Rightarrow>
          let rest = drop 10 s in
          if rest = [] then Some (DateTime d 0 None)
          else if hd rest \<noteq> CHR ''T'' then None
          else (case parse_hms (take 8 (drop 1 rest)) of
                  None \<Rightarrow> None
                | Some us \<Rightarrow>
                    let tz = drop 9 rest in
                    if tz = [] then Some (DateTime d us None)
                    else (case parse_offset tz of
                            None \<Rightarrow> None
                          | Some off \<Rightarrow> Some (DateTime d us (Some off)))))"

definition ref_strptime_ymd :: "string \<Rightarrow> datetime option" where
  "ref_strptime_ymd s = map_option (\<lambda>d. DateTime d 0 None) (parse_ymd s)"

text \<open>From an ordinal back to year, month and day, for \<^verbatim>\<open>isoformat()\<close>.\<close>

definition ord2year :: "nat \<Rightarrow> nat" where
  "ord2year n =
     (let n0 = n - 1;
          n400 = n0 div 146097; r400 = n0 mod 146097;
          n100 = r400 div 36524; r100 = r400 mod 36524;
          n4 = r100 div 1461; r4 = r100 mod 1461;
          n1 = r4 div 365;
          y = n400 * 400 + n100 * 100 + n4 * 4 + n1 + 1
      in if n1 = 4 \<or> n100 = 4 then y - 1 else y)"

definition ord2month :: "nat \<Rightarrow> nat \<Rightarrow> nat" where
  "ord2month y doy = length (filter (\<lambda>m. days_before_month y m < doy) [2..<13]) + 1"

definition pad :: "nat \<Rightarrow> nat \<Rightarrow> string" where
  "pad k n = map (\<lambda>i. char_of (48 + (n div 10 ^ (k - 1 - i)) mod 10)) [0..<k]"

definition ref_date_isoformat :: "date \<Rightarrow> string" where
  "ref_date_isoformat d =
     (let n = nat d; y = ord2year n; doy = n - days_before_year y; m = ord2month y doy
      in pad 4 y @ ''-'' @ pad 2 m @ ''-'' @ pad 2 (doy - days_before_month y m))"

definition ref_isoformat :: "datetime \<Rightarrow> string" where
  "ref_isoformat dt =
     (let secs = nat (dt_micros dt div 1000000); us = nat (dt_micros dt mod 1000000)
      in ref_date_isoformat (dt_date dt) @ ''T'' @
         pad 2 (secs div 3600) @ '':'' @ pad 2 (secs div 60 mod 60) @ '':'' @ pad 2 (secs mod 60) @
         (if us = 0 then [] else ''.'' @ pad 6 us) @
         (case dt_utcoffset dt of
            None \<Rightarrow> []
          | Some off \<Rightarrow>
              (if off < 0 then ''-'' else ''+'') @
              pad 2 (nat \<bar>off\<bar> div 60) @ '':'' @ pad 2 (nat \<bar>off\<bar> mod 60)))"

text \<open>
  The clock of the reference instance ticks one microsecond for each row; its driver
  refuses a \<^verbatim>\<open>str\<close> in a \<^verbatim>\<open>DateTime\<close> column, as SQLAlchemy's SQLite dialect does,
  and an \<^verbatim>\<open>int\<close> outside the signed 64-bit range, as \<^verbatim>\<open>sqlite3\<close> does.
\<close>

definition ref_env :: env where
  "ref_env =
     \<lparr> fromisoformat = ref_fromisoformat,
       strptime_ymd = ref_strptime_ymd,
       isoformat = ref_isoformat,
       date_isoformat = ref_date_isoformat,
       uuid4 = 0x1b4e28ba2fa111d2883f0016d3cca427,
       now = (\<lambda>k. DateTime 738900 (43200000000 + int k) (Some 0)),
       bind_datetime = (\<lambda>s. None),
       bind_integer =
         (\<lambda>n. if - 9223372036854775808 \<le> n \<and> n \<le> 9223372036854775807
              then None else Some OverflowError) \<rparr>"

definition empty_db :: db where
  "empty_db = \<lparr> tasks = [], events = [], journal = [] \<rparr>"


text \<open>Example requests.\<close>

definition daily_request :: task_payload where
  "daily_request =
     \<lparr> p_title = Val ''Water the plants'',
       p_description = Null,
       p_is_recurring = Val True,
       p_recurrence_type = Val ''daily'',
       p_due_date = Val ''2024-01-15'',
       p_start_time = Missing,
       p_end_time = Missing,
       p_is_completed = Missing,
       p_time_tracked_seconds = Missing \<rparr>"

definition last_day_request :: task_payload where
  "last_day_request = daily_request\<lparr>p_due_date := Val ''9999-12-31''\<rparr>"

definition monthly_request :: task_payload where
  "monthly_request =
     daily_request\<lparr>p_recurrence_type := Val ''monthly'',
                   p_start_time := Val ''2024-01-15T09:30:00Z''\<rparr>"

definition plain_request :: task_payload where
  "plain_request =
     daily_request\<lparr>p_is_recurring := Val False, p_recurrence_type := Missing\<rparr>"

definition undated_request :: task_payload where
  "undated_request = plain_request\<lparr>p_due_date := Missing\<rparr>"

definition bad_date_request :: task_payload where
  "bad_date_request = plain_request\<lparr>p_due_date := Val ''tomorrow''\<rparr>"

definition weekly_request :: task_payload where
  "weekly_request = daily_request\<lparr>p_recurrence_type := Val ''weekly''\<rparr>"

definition null_title_update :: task_payload where
  "null_title_update =
     \<lparr> p_title = Null, p_description = Missing, p_is_recurring = Missing,
       p_recurrence_type = Missing, p_due_date = Missing, p_start_time = Missing,
       p_end_time = Missing, p_is_completed = Missing, p_time_tracked_seconds = Missing \<rparr>"

definition null_fields_update :: task_payload where
  "null_fields_update =
     null_title_update\<lparr>p_title := Val ''Water the ferns'', p_description := Null,
                        p_is_completed := Null, p_time_tracked_seconds := Null\<rparr>"

definition out_of_range_update :: task_payload where
  "out_of_range_update =
     null_title_update\<lparr>p_title := Missing, p_description := Null, p_is_completed := Null,
                        p_time_tracked_seconds := Val 9223372036854775808\<rparr>"

definition dentist_request :: event_payload where
  "dentist_request =
     \<lparr> e_title = Val ''Dentist'', e_description = Missing,
       e_start_time = Val ''2024-01-15T09:30:00Z'',
       e_end_time = Val ''2024-01-15T10:30:00Z'' \<rparr>"

definition clear_end_update :: event_payload where
  "clear_end_update =
     \<lparr> e_title = Missing, e_description = Missing, e_start_time = Null, e_end_time = Null \<rparr>"

definition bad_end_update :: event_payload where
  "bad_end_update =
     \<lparr> e_title = Missing, e_description = Missing, e_start_time = Missing,
       e_end_time = Val ''tomorrow'' \<rparr>"

definition timed_daily_request :: task_payload where
  "timed_daily_request = daily_request\<lparr>p_start_time := Val ''2024-01-15T09:30:00Z''\<rparr>"

lemmas ref_parse_defs =
  ref_env_def ref_fromisoformat_def ref_strptime_ymd_def parse_ymd_def parse_hms_def
  parse_offset_def number_def digit_val_def ymd2ord_def days_in_month_def
  days_before_month_def days_before_year_def is_leap_def replace_Z_def

section \<open>Creating tasks\<close>

subsection \<open>Keys, the sibling loop and the flush\<close>

lemma max_id_append: "max_id (xs @ ys) = max (max_id xs) (max_id ys)"
  by (induction xs) auto

lemma max_id_ge: "i \<in> set ids \<Longrightarrow> i \<le> max_id ids"
  by (induction ids) auto

lemma next_id_fresh: "i \<in> set ids \<Longrightarrow> i < next_id ids"
  by (simp add: next_id_def max_id_ge less_Suc_eq_le)

lemma next_id_snoc: "next_id (ids @ [next_id ids]) = Suc (next_id ids)"
  by (simp add: next_id_def max_id_append)

lemma date_add_ok: "0 < d + n \<Longrightarrow> d + n \<le> MAXORDINAL \<Longrightarrow> date_add d n = Inr (d + n)"
  by (simp add: date_add_def)

lemma sibling_loop_ok:
  "\<forall>i \<in> set js. 0 < D + delta * int i \<and> D + delta * int i \<le> MAXORDINAL \<Longrightarrow>
   sibling_loop td (Some D) delta js = Inr (map (\<lambda>i. sibling td (D + delta * int i)) js)"
  by (induction js) (simp_all add: due_plus_def date_add_ok)

lemma insert_task_plain:
  "n_title t \<noteq> None \<Longrightarrow> n_start_time t = None \<Longrightarrow> n_end_time t = None \<Longrightarrow>
   insert_task env k t rows =
     Inr \<lparr> task_id = next_id (map task_id rows),
           task_title = n_title t,
           task_description = n_description t,
           task_is_recurring = column_default False (n_is_recurring t),
           task_is_completed = Some False,
           task_due_date = n_due_date t,
           task_start_time = None,
           task_end_time = None,
           task_time_tracked_seconds = Some 0,
           task_created_at = Some (now env k),
           task_recurrence_type = n_recurrence_type t,
           task_recurrence_group_id = n_recurrence_group_id t \<rparr>"
  by (simp add: insert_task_def bind_dt_def)

lemma insert_all_plain:
  "\<forall>i. n_title (f i) \<noteq> None \<and> n_start_time (f i) = None \<and> n_end_time (f i) = None \<Longrightarrow>
   insert_all env k (map f [k..<k + n]) rows =
     Inr (rows @ map (\<lambda>i.
           \<lparr> task_id = next_id (map task_id rows) + (i - k),
             task_title = n_title (f i),
             task_description = n_description (f i),
             task_is_recurring = column_default False (n_is_recurring (f i)),
             task_is_completed = Some False,
             task_due_date = n_due_date (f i),
             task_start_time = None,
             task_end_time = None,
             task_time_tracked_seconds = Some 0,
             task_created_at = Some (now env i),
             task_recurrence_type = n_recurrence_type (f i),
             task_recurrence_group_id = n_recurrence_group_id (f i) \<rparr>) [k..<k + n])"
proof (induction n arbitrary: k rows)
  case 0
  then show ?case by simp
next
  case (Suc n)
  let ?r = "\<lparr> task_id = next_id (map task_id rows),
             task_title = n_title (f k),
             task_description = n_description (f k),
             task_is_recurring = column_default False (n_is_recurring (f k)),
             task_is_completed = Some False,
             task_due_date = n_due_date (f k),
             task_start_time = None,
             task_end_time = None,
             task_time_tracked_seconds = Some 0,
             task_created_at = Some (now env k),
             task_recurrence_type = n_recurrence_type (f k),
             task_recurrence_group_id = n_recurrence_group_id (f k) \<rparr>"
  have up: "[k..<k + Suc n] = k # [Suc k..<Suc k + n]"
    by (simp add: upt_conv_Cons)
  have first: "insert_task env k (f k) rows = Inr ?r"
    using Suc.prems by (simp add: insert_task_plain)
  have nid: "next_id (map task_id (rows @ [?r])) = Suc (next_id (map task_id rows))"
    by (simp add: next_id_snoc)
  have shift: "\<And>i. i \<in> set [Suc k..<Suc k + n] \<Longrightarrow>
      Suc (next_id (map task_id rows)) + (i - Suc k) = next_id (map task_id rows) + (i - k)"
    by auto
  have "insert_all env k (map f [k..<k + Suc n]) rows
        = insert_all env (Suc k) (map f [Suc k..<Suc k + n]) (rows @ [?r])"
    unfolding up by (simp add: first)
  also have "\<dots> = Inr ((rows @ [?r]) @ map (\<lambda>i.
           \<lparr> task_id = next_id (map task_id (rows @ [?r])) + (i - Suc k),
             task_title = n_title (f i),
             task_description = n_description (f i),
             task_is_recurring = column_default False (n_is_recurring (f i)),
             task_is_completed = Some False,
             task_due_date = n_due_date (f i),
             task_start_time = None,
             task_end_time = None,
             task_time_tracked_seconds = Some 0,
             task_created_at = Some (now env i),
             task_recurrence_type = n_recurrence_type (f i),
             task_recurrence_group_id = n_recurrence_group_id (f i) \<rparr>) [Suc k..<Suc k + n])"
    by (rule Suc.IH [OF Suc.prems])
  also have "\<dots> = Inr (rows @ map (\<lambda>i.
           \<lparr> task_id = next_id (map task_id rows) + (i - k),
             task_title = n_title (f i),
             task_description = n_description (f i),
             task_is_recurring = column_default False (n_is_recurring (f i)),
             task_is_completed = Some False,
             task_due_date = n_due_date (f i),
             task_start_time = None,
             task_end_time = None,
             task_time_tracked_seconds = Some 0,
             task_created_at = Some (now env i),
             task_recurrence_type = n_recurrence_type (f i),
             task_recurrence_group_id = n_recurrence_group_id (f i) \<rparr>) [k..<k + Suc n])"
    unfolding up nid using shift by (simp cong: map_cong)
  finally show ?case .
qed


lemma parse_datetime_falsy: "\<not> truthy_str v \<Longrightarrow> parse_datetime env v = Inr None"
  by (simp add: parse_datetime_def truthy_str_def split: option.splits)

lemma truthy_str_Some: "truthy_str v \<Longrightarrow> v \<noteq> None"
  by (cases v) (simp_all add: truthy_str_def)

subsection \<open>Every outcome of a creation request\<close>

lemma sibling_loop_overflow:
  "\<exists>i \<in> set js. \<not> (0 < D + delta * int i \<and> D + delta * int i \<le> MAXORDINAL) \<Longrightarrow>
   sibling_loop td (Some D) delta js = Inl OverflowError"
proof (induction js)
  case Nil
  then show ?case by simp
next
  case (Cons i js)
  show ?case
  proof (cases "0 < D + delta * int i \<and> D + delta * int i \<le> MAXORDINAL")
    case True
    with Cons show ?thesis
      by (auto simp: due_plus_def date_add_def Let_def)
  next
    case False
    then show ?thesis
      by (auto simp: due_plus_def date_add_def Let_def)
  qed
qed

lemma bind_dt_DT: "bind_dt env (map_option DT v) = Inr v"
  by (cases v) (simp_all add: bind_dt_def)

lemma insert_task_Inr:
  assumes "insert_task env k t rows = Inr r"
  shows "task_id r = next_id (map task_id rows)"
    and "task_title r = n_title t"
    and "n_title t \<noteq> None"
    and "task_description r = n_description t"
    and "task_is_recurring r = column_default False (n_is_recurring t)"
    and "task_is_completed r = Some False"
    and "task_time_tracked_seconds r = Some 0"
    and "task_created_at r = Some (now env k)"
    and "task_due_date r = n_due_date t"
    and "task_recurrence_type r = n_recurrence_type t"
    and "task_recurrence_group_id r = n_recurrence_group_id t"
    and "bind_dt env (n_start_time t) = Inr (task_start_time r)"
    and "bind_dt env (n_end_time t) = Inr (task_end_time r)"
  using assms by (auto simp: insert_task_def split: sum.splits if_splits)

lemma insert_all_Inr:
  "insert_all env k ts rows = Inr rows' \<Longrightarrow>
   \<exists>new. rows' = rows @ new
     \<and> map task_id new = [next_id (map task_id rows)..<next_id (map task_id rows) + length ts]
     \<and> list_all2 (\<lambda>t r. task_title r = n_title t
                      \<and> task_is_recurring r = column_default False (n_is_recurring t)
                      \<and> task_due_date r = n_due_date t
                      \<and> task_recurrence_type r = n_recurrence_type t
                      \<and> task_recurrence_group_id r = n_recurrence_group_id t
                      \<and> task_is_completed r = Some False
                      \<and> task_time_tracked_seconds r = Some 0) ts new"
proof (induction ts arbitrary: k rows)
  case Nil
  then show ?case by simp
next
  case (Cons t ts)
  from Cons.prems obtain r where r: "insert_task env k t rows = Inr r"
    and rest: "insert_all env (Suc k) ts (rows @ [r]) = Inr rows'"
    by (auto split: sum.splits)
  from Cons.IH [OF rest] obtain new where new: "rows' = (rows @ [r]) @ new"
    and ids: "map task_id new = [next_id (map task_id (rows @ [r]))..<
                                  next_id (map task_id (rows @ [r])) + length ts]"
    and flds: "list_all2 (\<lambda>t r. task_title r = n_title t
                      \<and> task_is_recurring r = column_default False (n_is_recurring t)
                      \<and> task_due_date r = n_due_date t
                      \<and> task_recurrence_type r = n_recurrence_type t
                      \<and> task_recurrence_group_id r = n_recurrence_group_id t
                      \<and> task_is_completed r = Some False
                      \<and> task_time_tracked_seconds r = Some 0) ts new"
    by blast
  have nid: "next_id (map task_id (rows @ [r])) = Suc (next_id (map task_id rows))"
    using insert_task_Inr(1) [OF r] by (simp add: next_id_snoc)
  have "map task_id (r # new) =
        [next_id (map task_id rows)..<next_id (map task_id rows) + length (t # ts)]"
    using ids insert_task_Inr(1) [OF r] unfolding nid
    by (simp add: upt_conv_Cons del: upt_Suc)
  moreover have "rows' = rows @ r # new"
    using new by simp
  ultimately show ?case
    using flds insert_task_Inr [OF r] by (intro exI [of _ "r # new"]) simp
qed

lemma sibling_loop_Inr:
  "sibling_loop td due delta js = Inr ps \<Longrightarrow>
   length ps = length js \<and>
   list_all (\<lambda>p. n_title p = d_title td \<and> n_is_recurring p = d_is_recurring td
                \<and> n_recurrence_type p = d_recurrence_type td
                \<and> n_recurrence_group_id p = d_recurrence_group_id td
                \<and> n_due_date p \<noteq> None) ps"
proof (induction js arbitrary: ps)
  case Nil
  then show ?case by simp
next
  case (Cons i js)
  then show ?case
    by (auto simp: sibling_def split: sum.splits)
qed

lemma create_recurring_tasks_Inr:
  "create_recurring_tasks env t = Inr ps \<Longrightarrow>
   list_all (\<lambda>p. n_title p = task_title t \<and> n_is_recurring p = task_is_recurring t
                \<and> n_recurrence_type p = task_recurrence_type t
                \<and> n_recurrence_group_id p = task_recurrence_group_id t
                \<and> n_due_date p \<noteq> None \<and> truthy_bool (task_is_recurring t)) ps"
  by (auto simp: create_recurring_tasks_def to_dict_def list_all_iff
      split: if_splits option.splits dest!: sibling_loop_Inr)


lemma list_all2_list_all:
  "list_all2 P xs ys \<Longrightarrow> list_all Q xs \<Longrightarrow> (\<And>x y. P x y \<Longrightarrow> Q x \<Longrightarrow> R y) \<Longrightarrow> list_all R ys"
  by (induction rule: list_all2_induct) auto

lemma truthy_bool_iff: "truthy_bool v = (v = Some True)"
  by (cases v) (simp_all add: truthy_bool_def)

lemma truthy_default:
  "truthy_bool v \<Longrightarrow> column_default False v = Some True"
  "truthy_bool (column_default False v) = truthy_bool v"
  "(column_default False v = Some True) = truthy_bool v"
  by (cases v; simp add: truthy_bool_def column_default_def)+

lemma create_task_cases:
  obtains (unchanged) "snd (create_task env data st) = st"
  | (created) tmpl sibs where
      "create_task env data st
        = (Created201 (to_dict env tmpl), st\<lparr>tasks := tasks st @ tmpl # sibs\<rparr>)"
      "task_id tmpl = next_id (map task_id (tasks st))"
      "map task_id sibs = [Suc (task_id tmpl)..<Suc (task_id tmpl) + length sibs]"
      "task_due_date tmpl \<noteq> None"
      "task_title tmpl \<noteq> None"
      "task_is_recurring tmpl
          = column_default False (dict_get_default (p_is_recurring data) (Some False))"
      "task_recurrence_group_id tmpl
          = (if truthy_bool (dict_get_default (p_is_recurring data) (Some False))
             then Some (uuid_str (uuid4 env)) else None)"
      "list_all (\<lambda>s. task_recurrence_group_id s = task_recurrence_group_id tmpl
                     \<and> task_is_recurring s = Some True
                     \<and> task_is_recurring tmpl = Some True
                     \<and> task_due_date s \<noteq> None
                     \<and> task_title s = task_title tmpl
                     \<and> task_recurrence_type s = task_recurrence_type tmpl
                     \<and> task_is_completed s = Some False
                     \<and> task_time_tracked_seconds s = Some 0) sibs"
proof (cases "snd (create_task env data st) = st")
  case True
  then show ?thesis by (rule unchanged)
next
  case False
  then obtain due start_time end_time tmpl pending rows where
    due: "parse_date env (dict_get (p_due_date data)) = Inr (Some due)"
    and tmpl: "insert_task env 0
       \<lparr> n_title = dict_get (p_title data),
         n_description = dict_get (p_description data),
         n_is_recurring = dict_get_default (p_is_recurring data) (Some False),
         n_recurrence_type = dict_get (p_recurrence_type data),
         n_recurrence_group_id =
           (if truthy_bool (dict_get_default (p_is_recurring data) (Some False))
            then Some (uuid_str (uuid4 env)) else None),
         n_due_date = Some due,
         n_start_time = map_option DT start_time,
         n_end_time = map_option DT end_time \<rparr> (tasks st) = Inr tmpl"
    and pending: "create_recurring_tasks env tmpl = Inr pending"
    and rows: "insert_all env 1 pending (tasks st @ [tmpl]) = Inr rows"
    and res: "create_task env data st = (Created201 (to_dict env tmpl), st\<lparr>tasks := rows\<rparr>)"
    by (auto simp: create_task_def Let_def split: sum.splits if_splits)
  note t = insert_task_Inr [OF tmpl]
  from insert_all_Inr [OF rows] obtain sibs where
    sibs: "rows = (tasks st @ [tmpl]) @ sibs"
    and ids: "map task_id sibs = [next_id (map task_id (tasks st @ [tmpl]))..<
                next_id (map task_id (tasks st @ [tmpl])) + length pending]"
    and flds: "list_all2 (\<lambda>t r. task_title r = n_title t
                      \<and> task_is_recurring r = column_default False (n_is_recurring t)
                      \<and> task_due_date r = n_due_date t
                      \<and> task_recurrence_type r = n_recurrence_type t
                      \<and> task_recurrence_group_id r = n_recurrence_group_id t
                      \<and> task_is_completed r = Some False
                      \<and> task_time_tracked_seconds r = Some 0) pending sibs"
    by blast
  have len: "length sibs = length pending"
    using flds by (simp add: list_all2_lengthD)
  have nid: "next_id (map task_id (tasks st @ [tmpl])) = Suc (task_id tmpl)"
    using t(1) by (simp add: next_id_snoc)
  have all: "list_all (\<lambda>s. task_recurrence_group_id s = task_recurrence_group_id tmpl
                     \<and> task_is_recurring s = Some True
                     \<and> task_is_recurring tmpl = Some True
                     \<and> task_due_date s \<noteq> None
                     \<and> task_title s = task_title tmpl
                     \<and> task_recurrence_type s = task_recurrence_type tmpl
                     \<and> task_is_completed s = Some False
                     \<and> task_time_tracked_seconds s = Some 0) sibs"
    by (rule list_all2_list_all [OF flds create_recurring_tasks_Inr [OF pending]])
       (auto simp: truthy_bool_iff column_default_def)
  have ids': "map task_id sibs = [Suc (task_id tmpl)..<Suc (task_id tmpl) + length sibs]"
    using ids unfolding nid len .
  have res': "create_task env data st
        = (Created201 (to_dict env tmpl), st\<lparr>tasks := tasks st @ tmpl # sibs\<rparr>)"
    using res sibs by simp
  show ?thesis
  proof (rule created [of tmpl sibs])
    show "task_title tmpl \<noteq> None"
      using t(2,3) by simp
  qed (use res' ids' all t(1,5,9,11) in simp_all)
qed

lemma insert_task_DT:
  "n_title t \<noteq> None \<Longrightarrow> n_start_time t = map_option DT s \<Longrightarrow> n_end_time t = map_option DT e \<Longrightarrow>
   insert_task env k t rows =
     Inr \<lparr> task_id = next_id (map task_id rows),
           task_title = n_title t,
           task_description = n_description t,
           task_is_recurring = column_default False (n_is_recurring t),
           task_is_completed = Some False,
           task_due_date = n_due_date t,
           task_start_time = s,
           task_end_time = e,
           task_time_tracked_seconds = Some 0,
           task_created_at = Some (now env k),
           task_recurrence_type = n_recurrence_type t,
           task_recurrence_group_id = n_recurrence_group_id t \<rparr>"
  by (simp add: insert_task_def bind_dt_DT)

lemma create_recurring_tasks_none:
  "\<not> truthy_bool (task_is_recurring t) \<or> task_recurrence_type t \<notin> {Some ''daily'', Some ''weekly''}
   \<Longrightarrow> create_recurring_tasks env t = Inr []"
  by (auto simp: create_recurring_tasks_def recurrence_periods_def split: option.splits)

lemma create_task_single:
  assumes title: "truthy_str (dict_get (p_title data))"
    and due: "parse_date env (dict_get (p_due_date data)) = Inr (Some D)"
    and start: "parse_datetime env (dict_get (p_start_time data)) = Inr s"
    and "end": "parse_datetime env (dict_get (p_end_time data)) = Inr e"
    and single: "\<not> truthy_bool (dict_get_default (p_is_recurring data) (Some False))
                 \<or> dict_get (p_recurrence_type data) \<notin> {Some ''daily'', Some ''weekly''}"
  shows
    "create_task env data st =
       (let template =
              \<lparr> task_id = next_id (map task_id (tasks st)),
                task_title = dict_get (p_title data),
                task_description = dict_get (p_description data),
                task_is_recurring =
                  column_default False (dict_get_default (p_is_recurring data) (Some False)),
                task_is_completed = Some False,
                task_due_date = Some D,
                task_start_time = s,
                task_end_time = e,
                task_time_tracked_seconds = Some 0,
                task_created_at = Some (now env 0),
                task_recurrence_type = dict_get (p_recurrence_type data),
                task_recurrence_group_id =
                  (if truthy_bool (dict_get_default (p_is_recurring data) (Some False))
                   then Some (uuid_str (uuid4 env)) else None) \<rparr>
        in (Created201 (to_dict env template), st\<lparr>tasks := tasks st @ [template]\<rparr>))"
proof -
  let ?template =
    "\<lparr> task_id = next_id (map task_id (tasks st)),
       task_title = dict_get (p_title data),
       task_description = dict_get (p_description data),
       task_is_recurring =
         column_default False (dict_get_default (p_is_recurring data) (Some False)),
       task_is_completed = Some False,
       task_due_date = Some D,
       task_start_time = s,
       task_end_time = e,
       task_time_tracked_seconds = Some 0,
       task_created_at = Some (now env 0),
       task_recurrence_type = dict_get (p_recurrence_type data),
       task_recurrence_group_id =
         (if truthy_bool (dict_get_default (p_is_recurring data) (Some False))
          then Some (uuid_str (uuid4 env)) else None) \<rparr>"
  have t: "dict_get (p_title data) \<noteq> None"
    using title by (rule truthy_str_Some)
  have first:
    "insert_task env 0
       \<lparr> n_title = dict_get (p_title data),
         n_description = dict_get (p_description data),
         n_is_recurring = dict_get_default (p_is_recurring data) (Some False),
         n_recurrence_type = dict_get (p_recurrence_type data),
         n_recurrence_group_id =
           (if truthy_bool (dict_get_default (p_is_recurring data) (Some False))
            then Some (uuid_str (uuid4 env)) else None),
         n_due_date = Some D,
         n_start_time = map_option DT s,
         n_end_time = map_option DT e \<rparr> (tasks st) = Inr ?template"
    using t by (simp add: insert_task_DT)
  have none: "create_recurring_tasks env ?template = Inr []"
    using single by (intro create_recurring_tasks_none) (simp add: truthy_default)
  show ?thesis
    using title due start "end"
    by (simp add: create_task_def Let_def first none)
qed

lemma parse_date_falsy: "\<not> truthy_str v \<Longrightarrow> parse_date env v = Inr None"
  by (simp add: parse_date_def truthy_str_def split: option.splits)

lemma create_task_overflow:
  assumes title: "truthy_str (dict_get (p_title data))"
    and due: "parse_date env (dict_get (p_due_date data)) = Inr (Some D)"
    and start: "parse_datetime env (dict_get (p_start_time data)) = Inr s"
    and "end": "parse_datetime env (dict_get (p_end_time data)) = Inr e"
    and flag: "p_is_recurring data = Val True"
    and cadence:
      "(p_recurrence_type data = Val ''daily'' \<and> period = 1 \<and> count = 90)
       \<or> (p_recurrence_type data = Val ''weekly'' \<and> period = 7 \<and> count = 12)"
    and over: "MAXORDINAL < D + period * int count"
  shows "create_task env data st = (Unhandled OverflowError, st)"
proof -
  let ?template =
    "\<lparr> task_id = next_id (map task_id (tasks st)),
       task_title = dict_get (p_title data),
       task_description = dict_get (p_description data),
       task_is_recurring = Some True,
       task_is_completed = Some False,
       task_due_date = Some D,
       task_start_time = s,
       task_end_time = e,
       task_time_tracked_seconds = Some 0,
       task_created_at = Some (now env 0),
       task_recurrence_type = dict_get (p_recurrence_type data),
       task_recurrence_group_id = Some (uuid_str (uuid4 env)) \<rparr>"
  have t: "dict_get (p_title data) \<noteq> None"
    using title by (rule truthy_str_Some)
  have first:
    "insert_task env 0
       \<lparr> n_title = dict_get (p_title data),
         n_description = dict_get (p_description data),
         n_is_recurring = Some True,
         n_recurrence_type = dict_get (p_recurrence_type data),
         n_recurrence_group_id = Some (uuid_str (uuid4 env)),
         n_due_date = Some D,
         n_start_time = map_option DT s,
         n_end_time = map_option DT e \<rparr> (tasks st) = Inr ?template"
    using t by (simp add: insert_task_DT column_default_def)
  have rp: "recurrence_periods (the (dict_get (p_recurrence_type data))) = Some (period, count)"
    and ty: "dict_get (p_recurrence_type data) \<noteq> None"
    and tty: "truthy_str (dict_get (p_recurrence_type data))"
    and cnt: "0 < count"
    using cadence by (auto simp: recurrence_periods_def truthy_str_def)
  have ex: "\<exists>i \<in> set [1..<Suc count].
          \<not> (0 < D + period * int i \<and> D + period * int i \<le> MAXORDINAL)"
    using over cnt by (intro bexI [of _ count]) auto
  have sl: "sibling_loop (to_dict env ?template) (Some D) period [1..<Suc count]
            = Inl OverflowError"
    by (rule sibling_loop_overflow [OF ex])
  obtain c where c: "dict_get (p_recurrence_type data) = Some c"
    using ty by auto
  have loop: "create_recurring_tasks env ?template = Inl OverflowError"
    using tty rp sl unfolding c
    by (simp add: create_recurring_tasks_def truthy_bool_def del: upt_Suc)
  show ?thesis
    using title due start "end" flag
    by (simp add: create_task_def Let_def truthy_bool_def first loop)
qed

lemma parse_date_last_day: "parse_date ref_env (Some ''9999-12-31'') = Inr (Some 3652059)"
  by (simp add: parse_date_def ref_parse_defs)

subsection \<open>Expansion of a recurring task\<close>

text \<open>
  The expansion in full: the response and the table after a recurring request whose
  instances all fit the calendar.
\<close>

lemma create_task_recurring:
  assumes title: "truthy_str (dict_get (p_title data))"
    and due: "parse_date env (dict_get (p_due_date data)) = Inr (Some D)"
    and flag: "p_is_recurring data = Val True"
    and cadence:
      "(p_recurrence_type data = Val ''daily'' \<and> period = 1 \<and> count = 90)
       \<or> (p_recurrence_type data = Val ''weekly'' \<and> period = 7 \<and> count = 12)"
    and no_start: "\<not> truthy_str (dict_get (p_start_time data))"
    and no_end: "\<not> truthy_str (dict_get (p_end_time data))"
    and lower: "0 < D"
    and upper: "D + period * int count \<le> MAXORDINAL"
  shows
    "create_task env data st =
       (let template =
              \<lparr> task_id = next_id (map task_id (tasks st)),
                task_title = dict_get (p_title data),
                task_description = dict_get (p_description data),
                task_is_recurring = Some True,
                task_is_completed = Some False,
                task_due_date = Some D,
                task_start_time = None,
                task_end_time = None,
                task_time_tracked_seconds = Some 0,
                task_created_at = Some (now env 0),
                task_recurrence_type = dict_get (p_recurrence_type data),
                task_recurrence_group_id = Some (uuid_str (uuid4 env)) \<rparr>
        in (Created201 (to_dict env template),
            st\<lparr>tasks := tasks st @ template #
                   map (\<lambda>i. template
                          \<lparr> task_id := task_id template + i,
                            task_due_date := Some (D + period * int i),
                            task_created_at := Some (now env i) \<rparr>)
                     [1..<Suc count]\<rparr>))"
proof -
  let ?template =
    "\<lparr> task_id = next_id (map task_id (tasks st)),
       task_title = dict_get (p_title data),
       task_description = dict_get (p_description data),
       task_is_recurring = Some True,
       task_is_completed = Some False,
       task_due_date = Some D,
       task_start_time = None,
       task_end_time = None,
       task_time_tracked_seconds = Some 0,
       task_created_at = Some (now env 0),
       task_recurrence_type = dict_get (p_recurrence_type data),
       task_recurrence_group_id = Some (uuid_str (uuid4 env)) \<rparr>"
  let ?f = "\<lambda>i. sibling (to_dict env ?template) (D + period * int i)"
  have t: "dict_get (p_title data) \<noteq> None"
    using title by (rule truthy_str_Some)
  have period: "0 < period"
    using cadence by auto
  have rp: "recurrence_periods (the (dict_get (p_recurrence_type data))) = Some (period, count)"
    and ty: "dict_get (p_recurrence_type data) \<noteq> None"
    and tty: "truthy_str (dict_get (p_recurrence_type data))"
    using cadence by (auto simp: recurrence_periods_def truthy_str_def)
  have first:
    "insert_task env 0
       \<lparr> n_title = dict_get (p_title data),
         n_description = dict_get (p_description data),
         n_is_recurring = Some True,
         n_recurrence_type = dict_get (p_recurrence_type data),
         n_recurrence_group_id = Some (uuid_str (uuid4 env)),
         n_due_date = Some D,
         n_start_time = None,
         n_end_time = None \<rparr> (tasks st) = Inr ?template"
    using t by (simp add: insert_task_plain column_default_def)
  have in_range:
    "\<forall>i \<in> set [1..<Suc count]. 0 < D + period * int i \<and> D + period * int i \<le> MAXORDINAL"
  proof
    fix i assume "i \<in> set [1..<Suc count]"
    then have i: "1 \<le> i" "i \<le> count" by auto
    have "period * int i \<le> period * int count"
      using period i by (simp add: mult_left_mono)
    moreover have "0 \<le> period * int i"
      using period by simp
    ultimately show "0 < D + period * int i \<and> D + period * int i \<le> MAXORDINAL"
      using lower upper by linarith
  qed
  define pending where "pending = map ?f [1..<1 + count]"
  define rows where
    "rows = tasks st @ ?template #
            map (\<lambda>i. ?template
                   \<lparr> task_id := task_id ?template + i,
                     task_due_date := Some (D + period * int i),
                     task_created_at := Some (now env i) \<rparr>)
              [1..<Suc count]"
  have loop: "create_recurring_tasks env ?template = Inr pending"
    unfolding pending_def
    using ty tty rp sibling_loop_ok [OF in_range, of "to_dict env ?template"]
    by (auto simp: create_recurring_tasks_def truthy_bool_def)
  have plain: "\<forall>i. n_title (?f i) \<noteq> None \<and> n_start_time (?f i) = None \<and> n_end_time (?f i) = None"
    using t by (simp add: sibling_def to_dict_def)
  have nid: "next_id (map task_id (tasks st @ [?template])) = Suc (task_id ?template)"
    by (simp add: next_id_snoc)
  have commit: "insert_all env 1 pending (tasks st @ [?template]) = Inr rows"
    unfolding pending_def rows_def insert_all_plain [OF plain] nid
    by (auto simp: sibling_def to_dict_def column_default_def)
  have "create_task env data st = (Created201 (to_dict env ?template), st\<lparr>tasks := rows\<rparr>)"
    using title due flag
    by (simp add: create_task_def Let_def truthy_bool_def parse_datetime_falsy [OF no_start]
        parse_datetime_falsy [OF no_end] first loop commit [unfolded One_nat_def])
  then show ?thesis
    unfolding rows_def Let_def .
qed

text \<open>
  C1 (as amended). A creation request with a non-empty title, recurrence flag
  \<^verbatim>\<open>true\<close>, cadence \<^verbatim>\<open>daily\<close> (period 1 day, 90 instances) or \<^verbatim>\<open>weekly\<close>
  (period 7 days, 12 instances), a due date \<open>D\<close> whose last instance
  \<open>D + period * count\<close> is still a date (not after 9999-12-31), and no start or end
  instant, answers 201 and appends to the table the template followed by exactly
  \<open>count\<close> siblings. Sibling \<open>i\<close> (for \<open>i = 1..count\<close>) is the template with three
  columns changed: the key (the template's key plus \<open>i\<close>, so larger than every key of
  the table), the due date \<open>D + period * i\<close>, and the creation instant (the clock read
  at its own INSERT). So every sibling has the template's group identity, title,
  description, recurrence flag and cadence, completion flag \<^verbatim>\<open>false\<close> and tracked
  duration 0.
\<close>

theorem create_task_expansion:
  assumes title: "truthy_str (dict_get (p_title data))"
    and due: "parse_date env (dict_get (p_due_date data)) = Inr (Some D)"
    and flag: "p_is_recurring data = Val True"
    and cadence:
      "(p_recurrence_type data = Val ''daily'' \<and> period = 1 \<and> count = 90)
       \<or> (p_recurrence_type data = Val ''weekly'' \<and> period = 7 \<and> count = 12)"
    and no_start: "\<not> truthy_str (dict_get (p_start_time data))"
    and no_end: "\<not> truthy_str (dict_get (p_end_time data))"
    and lower: "0 < D"
    and upper: "D + period * int count \<le> MAXORDINAL"
  shows
    "create_task env data st =
       (let template =
              \<lparr> task_id = next_id (map task_id (tasks st)),
                task_title = dict_get (p_title data),
                task_description = dict_get (p_description data),
                task_is_recurring = Some True,
                task_is_completed = Some False,
                task_due_date = Some D,
                task_start_time = None,
                task_end_time = None,
                task_time_tracked_seconds = Some 0,
                task_created_at = Some (now env 0),
                task_recurrence_type = dict_get (p_recurrence_type data),
                task_recurrence_group_id = Some (uuid_str (uuid4 env)) \<rparr>
        in (Created201 (to_dict env template),
            st\<lparr>tasks := tasks st @ template #
                   map (\<lambda>i. template
                          \<lparr> task_id := task_id template + i,
                            task_due_date := Some (D + period * int i),
                            task_created_at := Some (now env i) \<rparr>)
                     [1..<Suc count]\<rparr>))"
  using assms by (rule create_task_recurring)

text \<open>
  The theorem at a daily request due on 2024-01-15 into the empty database: 91 rows with
  keys 1 to 91, due on 2024-01-15 and the 90 days after it, all in one group, none
  completed.
\<close>

theorem create_task_expansion_witness:
  "fst (create_task ref_env daily_request empty_db) \<noteq> BadRequest400 ''Title and due_date are required''
   \<and> length (tasks (snd (create_task ref_env daily_request empty_db))) = 91
   \<and> map task_due_date (tasks (snd (create_task ref_env daily_request empty_db)))
       = map (\<lambda>i. Some (738900 + int i)) [0..<91]
   \<and> map task_id (tasks (snd (create_task ref_env daily_request empty_db))) = [1..<92]
   \<and> map task_recurrence_group_id (tasks (snd (create_task ref_env daily_request empty_db)))
       = replicate 91 (Some (uuid_str (uuid4 ref_env)))
   \<and> map task_is_completed (tasks (snd (create_task ref_env daily_request empty_db)))
       = replicate 91 (Some False)"
proof -
  have title: "truthy_str (dict_get (p_title daily_request))"
    by (simp add: daily_request_def truthy_str_def)
  have due: "parse_date ref_env (dict_get (p_due_date daily_request)) = Inr (Some 738900)"
    by (simp add: daily_request_def parse_date_def ref_parse_defs)
  have flag: "p_is_recurring daily_request = Val True"
    by (simp add: daily_request_def)
  have cadence:
    "(p_recurrence_type daily_request = Val ''daily'' \<and> (1::int) = 1 \<and> (90::nat) = 90)
     \<or> (p_recurrence_type daily_request = Val ''weekly'' \<and> (1::int) = 7 \<and> (90::nat) = 12)"
    by (simp add: daily_request_def)
  have no_start: "\<not> truthy_str (dict_get (p_start_time daily_request))"
    and no_end: "\<not> truthy_str (dict_get (p_end_time daily_request))"
    by (simp_all add: daily_request_def truthy_str_def)
  have lower: "(0::int) < 738900" by simp
  have upper: "(738900::int) + 1 * int 90 \<le> MAXORDINAL"
    by (simp add: MAXORDINAL_def)
  have a: "[0..<91] = 0 # [1..<Suc 90]"
    by (simp add: upt_conv_Cons)
  have b: "[1..<92] = 1 # map (\<lambda>i. 1 + i) [1..<Suc 90]"
    by (simp add: upt_conv_Cons map_add_upt del: upt_Suc)
  have c: "\<And>x::string option. replicate 91 x = x # replicate 90 x"
    and d: "\<And>x::bool option. replicate 91 x = x # replicate 90 x"
    by (simp_all flip: replicate_Suc)
  show ?thesis
    unfolding create_task_expansion [OF title due flag cadence no_start no_end lower upper] a b c d
    by (simp add: Let_def empty_db_def next_id_def comp_def map_replicate_const del: upt_Suc)
qed

text \<open>
  C1 as stated fails at the end of the calendar: a daily request due on 9999-12-31 has
  a non-empty title, recurrence flag \<^verbatim>\<open>true\<close>, cadence \<^verbatim>\<open>daily\<close> and a due date, but
  the first sibling's due date overflows; the request ends in an unhandled
  \<^verbatim>\<open>OverflowError\<close> and not even the template is stored.
\<close>

theorem create_task_expansion_counterexample:
  "create_task ref_env last_day_request empty_db = (Unhandled OverflowError, empty_db)
   \<and> tasks (snd (create_task ref_env last_day_request empty_db)) = []"
proof -
  have "create_task ref_env last_day_request empty_db = (Unhandled OverflowError, empty_db)"
    by (rule create_task_overflow [where D = 3652059 and period = 1 and count = 90
          and s = None and e = None])
       (simp_all add: last_day_request_def daily_request_def truthy_str_def parse_date_last_day
          parse_datetime_def MAXORDINAL_def)
  then show ?thesis
    by (simp add: empty_db_def)
qed

subsection \<open>Siblings of a task with a start or end instant\<close>

text \<open>
  The siblings are built from \<^verbatim>\<open>to_dict()\<close>, so where the template holds a
  \<^verbatim>\<open>datetime\<close> they are given its ISO string. What becomes of the request then lies
  with the database driver: one that refuses a \<^verbatim>\<open>str\<close> in a \<^verbatim>\<open>DateTime\<close> column
  fails the flush of the first sibling, and the whole request with it.
\<close>

lemma sibling_start_time:
  "n_start_time (sibling (to_dict env t) d) = map_option (Text \<circ> isoformat env) (task_start_time t)"
  "n_end_time (sibling (to_dict env t) d) = map_option (Text \<circ> isoformat env) (task_end_time t)"
  by (simp_all add: sibling_def to_dict_def option.map_comp)

lemma create_task_recurring_text:
  assumes title: "truthy_str (dict_get (p_title data))"
    and due: "parse_date env (dict_get (p_due_date data)) = Inr (Some D)"
    and start: "parse_datetime env (dict_get (p_start_time data)) = Inr (Some dt)"
    and "end": "parse_datetime env (dict_get (p_end_time data)) = Inr e"
    and flag: "p_is_recurring data = Val True"
    and cadence:
      "(p_recurrence_type data = Val ''daily'' \<and> period = 1 \<and> count = 90)
       \<or> (p_recurrence_type data = Val ''weekly'' \<and> period = 7 \<and> count = 12)"
    and lower: "0 < D"
    and upper: "D + period * int count \<le> MAXORDINAL"
    and refused: "bind_datetime env (isoformat env dt) = None"
  shows "create_task env data st = (Unhandled StatementError, st)"
proof -
  let ?template =
    "\<lparr> task_id = next_id (map task_id (tasks st)),
       task_title = dict_get (p_title data),
       task_description = dict_get (p_description data),
       task_is_recurring = Some True,
       task_is_completed = Some False,
       task_due_date = Some D,
       task_start_time = Some dt,
       task_end_time = e,
       task_time_tracked_seconds = Some 0,
       task_created_at = Some (now env 0),
       task_recurrence_type = dict_get (p_recurrence_type data),
       task_recurrence_group_id = Some (uuid_str (uuid4 env)) \<rparr>"
  let ?f = "\<lambda>i. sibling (to_dict env ?template) (D + period * int i)"
  have t: "dict_get (p_title data) \<noteq> None"
    using title by (rule truthy_str_Some)
  have period: "0 < period" and cnt: "0 < count"
    using cadence by auto
  have rp: "recurrence_periods (the (dict_get (p_recurrence_type data))) = Some (period, count)"
    and tty: "truthy_str (dict_get (p_recurrence_type data))"
    using cadence by (auto simp: recurrence_periods_def truthy_str_def)
  obtain c where c: "dict_get (p_recurrence_type data) = Some c"
    using truthy_str_Some [OF tty] by auto
  have first:
    "insert_task env 0
       \<lparr> n_title = dict_get (p_title data),
         n_description = dict_get (p_description data),
         n_is_recurring = Some True,
         n_recurrence_type = dict_get (p_recurrence_type data),
         n_recurrence_group_id = Some (uuid_str (uuid4 env)),
         n_due_date = Some D,
         n_start_time = map_option DT (Some dt),
         n_end_time = map_option DT e \<rparr> (tasks st) = Inr ?template"
    using t by (subst insert_task_DT [where s = "Some dt" and e = e])
      (simp_all add: column_default_def)
  have in_range:
    "\<forall>i \<in> set [1..<Suc count]. 0 < D + period * int i \<and> D + period * int i \<le> MAXORDINAL"
  proof
    fix i assume "i \<in> set [1..<Suc count]"
    then have i: "1 \<le> i" "i \<le> count" by auto
    have "period * int i \<le> period * int count"
      using period i by (simp add: mult_left_mono)
    moreover have "0 \<le> period * int i"
      using period by simp
    ultimately show "0 < D + period * int i \<and> D + period * int i \<le> MAXORDINAL"
      using lower upper by linarith
  qed
  have up: "[1..<Suc count] = 1 # [2..<Suc count]"
    using cnt by (simp add: upt_conv_Cons numeral_2_eq_2 del: upt_Suc)
  define pending where "pending = map ?f [1..<Suc count]"
  have loop: "create_recurring_tasks env ?template = Inr pending"
    using tty rp sibling_loop_ok [OF in_range, of "to_dict env ?template"]
    unfolding c pending_def
    by (simp add: create_recurring_tasks_def truthy_bool_def del: upt_Suc)
  have refuse: "insert_task env 1 (?f 1) (tasks st @ [?template]) = Inl StatementError"
    using refused by (simp add: insert_task_def sibling_start_time bind_dt_def)
  have "insert_all env 1 (?f 1 # map ?f [2..<Suc count]) (tasks st @ [?template])
          = Inl StatementError"
    by (simp only: insert_all.simps refuse sum.case)
  then have commit: "insert_all env 1 pending (tasks st @ [?template]) = Inl StatementError"
    unfolding pending_def up by simp
  show ?thesis
    using title due start "end" flag
    by (simp add: create_task_def Let_def truthy_bool_def first [simplified] loop
        commit [unfolded One_nat_def])
qed

lemma create_task_timed_daily:
  "create_task ref_env timed_daily_request empty_db = (Unhandled StatementError, empty_db)"
  by (rule create_task_recurring_text [where D = 738900 and period = 1 and count = 90
        and e = None and dt = "DateTime 738900 34200000000 (Some 0)"])
     (simp_all add: timed_daily_request_def daily_request_def truthy_str_def parse_date_def
        parse_datetime_def ref_parse_defs MAXORDINAL_def)

subsection \<open>The due date is required\<close>

text \<open>
  C4 (as amended). The handler requires a due date for every task: a creation request
  whose due date is missing, \<^verbatim>\<open>null\<close> or empty is answered 400 and stores nothing,
  whatever its recurrence flag.
\<close>

theorem create_task_requires_due_date:
  "\<not> truthy_str (dict_get (p_due_date data)) \<Longrightarrow>
   create_task env data st = (BadRequest400 ''Title and due_date are required'', st)"
  by (simp add: create_task_def parse_date_falsy)

theorem create_task_requires_due_date_witness:
  "\<not> truthy_str (dict_get (p_due_date (plain_request\<lparr>p_due_date := Null\<rparr>)))
   \<and> create_task ref_env (plain_request\<lparr>p_due_date := Null\<rparr>) empty_db
       = (BadRequest400 ''Title and due_date are required'', empty_db)"
  using create_task_requires_due_date [of "plain_request\<lparr>p_due_date := Null\<rparr>" ref_env empty_db]
  by (simp add: truthy_str_def)

text \<open>
  C4 as stated fails: a request with a title, recurrence flag \<^verbatim>\<open>false\<close> and no due
  date is rejected, and no task is stored.
\<close>

theorem undated_task_counterexample:
  "truthy_str (dict_get (p_title undated_request))
   \<and> p_is_recurring undated_request = Val False
   \<and> p_due_date undated_request = Missing
   \<and> fst (create_task ref_env undated_request empty_db)
       = BadRequest400 ''Title and due_date are required''
   \<and> tasks (snd (create_task ref_env undated_request empty_db)) = []"
  by (simp add: undated_request_def plain_request_def daily_request_def truthy_str_def
      create_task_def parse_date_def empty_db_def)

subsection \<open>Requests that are not expanded\<close>

text \<open>
  C5. A creation request marked recurring (recurrence flag \<^verbatim>\<open>true\<close>) whose cadence is
  neither \<^verbatim>\<open>daily\<close> nor \<^verbatim>\<open>weekly\<close> (another string, an empty one, \<^verbatim>\<open>null\<close>, or
  no cadence at all), and which is otherwise well-formed (non-empty title, a due date
  that parses, start and end instants that parse or are empty), is not an error: the
  answer is 201, and the table grows by exactly one row, the template, with its
  recurrence flag \<^verbatim>\<open>true\<close> and its cadence as given.
\<close>

theorem create_task_unknown_cadence:
  assumes title: "truthy_str (dict_get (p_title data))"
    and due: "parse_date env (dict_get (p_due_date data)) = Inr (Some D)"
    and start: "parse_datetime env (dict_get (p_start_time data)) = Inr s"
    and "end": "parse_datetime env (dict_get (p_end_time data)) = Inr e"
    and flag: "p_is_recurring data = Val True"
    and cadence: "dict_get (p_recurrence_type data) \<noteq> Some ''daily''"
                 "dict_get (p_recurrence_type data) \<noteq> Some ''weekly''"
  shows
    "create_task env data st =
       (let template =
              \<lparr> task_id = next_id (map task_id (tasks st)),
                task_title = dict_get (p_title data),
                task_description = dict_get (p_description data),
                task_is_recurring = Some True,
                task_is_completed = Some False,
                task_due_date = Some D,
                task_start_time = s,
                task_end_time = e,
                task_time_tracked_seconds = Some 0,
                task_created_at = Some (now env 0),
                task_recurrence_type = dict_get (p_recurrence_type data),
                task_recurrence_group_id = Some (uuid_str (uuid4 env)) \<rparr>
        in (Created201 (to_dict env template), st\<lparr>tasks := tasks st @ [template]\<rparr>))"
  using create_task_single [OF title due start "end", of st] flag cadence
  by (simp add: truthy_bool_def column_default_def)

theorem create_task_unknown_cadence_witness:
  "fst (create_task ref_env monthly_request empty_db)
     = Created201 (to_dict ref_env
        \<lparr> task_id = 1,
          task_title = Some ''Water the plants'',
          task_description = None,
          task_is_recurring = Some True,
          task_is_completed = Some False,
          task_due_date = Some 738900,
          task_start_time = Some (DateTime 738900 34200000000 (Some 0)),
          task_end_time = None,
          task_time_tracked_seconds = Some 0,
          task_created_at = Some (now ref_env 0),
          task_recurrence_type = Some ''monthly'',
          task_recurrence_group_id = Some (uuid_str (uuid4 ref_env)) \<rparr>)
   \<and> map task_is_recurring (tasks (snd (create_task ref_env monthly_request empty_db)))
       = [Some True]
   \<and> map task_recurrence_type (tasks (snd (create_task ref_env monthly_request empty_db)))
       = [Some ''monthly'']"
proof -
  have title: "truthy_str (dict_get (p_title monthly_request))"
    by (simp add: monthly_request_def daily_request_def truthy_str_def)
  have due: "parse_date ref_env (dict_get (p_due_date monthly_request)) = Inr (Some 738900)"
    by (simp add: monthly_request_def daily_request_def parse_date_def ref_parse_defs)
  have start: "parse_datetime ref_env (dict_get (p_start_time monthly_request))
                 = Inr (Some (DateTime 738900 34200000000 (Some 0)))"
    by (simp add: monthly_request_def daily_request_def parse_datetime_def ref_parse_defs)
  have "end": "parse_datetime ref_env (dict_get (p_end_time monthly_request)) = Inr None"
    by (simp add: monthly_request_def daily_request_def parse_datetime_def)
  have flag: "p_is_recurring monthly_request = Val True"
    by (simp add: monthly_request_def daily_request_def)
  have cadence: "dict_get (p_recurrence_type monthly_request) \<noteq> Some ''daily''"
    "dict_get (p_recurrence_type monthly_request) \<noteq> Some ''weekly''"
    by (simp_all add: monthly_request_def daily_request_def)
  show ?thesis
    unfolding create_task_unknown_cadence [OF title due start "end" flag cadence]
    by (simp add: Let_def empty_db_def next_id_def monthly_request_def daily_request_def)
qed

text \<open>
  C6. A well-formed creation request whose recurrence flag is not \<^verbatim>\<open>true\<close>
  (\<^verbatim>\<open>false\<close>, \<^verbatim>\<open>null\<close> or missing) stores exactly one row, and the group identity
  of that row is absent.
\<close>

theorem create_task_not_recurring:
  assumes title: "truthy_str (dict_get (p_title data))"
    and due: "parse_date env (dict_get (p_due_date data)) = Inr (Some D)"
    and start: "parse_datetime env (dict_get (p_start_time data)) = Inr s"
    and "end": "parse_datetime env (dict_get (p_end_time data)) = Inr e"
    and flag: "p_is_recurring data \<noteq> Val True"
  shows
    "create_task env data st =
       (let task =
              \<lparr> task_id = next_id (map task_id (tasks st)),
                task_title = dict_get (p_title data),
                task_description = dict_get (p_description data),
                task_is_recurring = Some False,
                task_is_completed = Some False,
                task_due_date = Some D,
                task_start_time = s,
                task_end_time = e,
                task_time_tracked_seconds = Some 0,
                task_created_at = Some (now env 0),
                task_recurrence_type = dict_get (p_recurrence_type data),
                task_recurrence_group_id = None \<rparr>
        in (Created201 (to_dict env task), st\<lparr>tasks := tasks st @ [task]\<rparr>))"
proof -
  have "\<not> truthy_bool (dict_get_default (p_is_recurring data) (Some False))"
    using flag by (cases "p_is_recurring data") (simp_all add: truthy_bool_def)
  moreover
  have "column_default False (dict_get_default (p_is_recurring data) (Some False)) = Some False"
    using flag by (cases "p_is_recurring data") (simp_all add: column_default_def)
  ultimately show ?thesis
    using create_task_single [OF title due start "end", of st] by simp
qed

theorem create_task_not_recurring_witness:
  "map task_recurrence_group_id (tasks (snd (create_task ref_env plain_request empty_db))) = [None]
   \<and> map task_due_date (tasks (snd (create_task ref_env plain_request empty_db))) = [Some 738900]
   \<and> map task_id (tasks (snd (create_task ref_env plain_request empty_db))) = [1]"
proof -
  have title: "truthy_str (dict_get (p_title plain_request))"
    by (simp add: plain_request_def daily_request_def truthy_str_def)
  have due: "parse_date ref_env (dict_get (p_due_date plain_request)) = Inr (Some 738900)"
    by (simp add: plain_request_def daily_request_def parse_date_def ref_parse_defs)
  have start: "parse_datetime ref_env (dict_get (p_start_time plain_request)) = Inr None"
    and "end": "parse_datetime ref_env (dict_get (p_end_time plain_request)) = Inr None"
    by (simp_all add: plain_request_def daily_request_def parse_datetime_def)
  have flag: "p_is_recurring plain_request \<noteq> Val True"
    by (simp add: plain_request_def)
  show ?thesis
    unfolding create_task_not_recurring [OF title due start "end" flag]
    by (simp add: Let_def empty_db_def next_id_def)
qed

subsection \<open>Rejected requests\<close>

text \<open>
  The guards of the three creation handlers answer 400 and store nothing; and a task
  creation that does not answer 201 leaves the database as it was.
\<close>

lemma create_task_rejects:
  "\<not> truthy_str (dict_get (p_title data)) \<Longrightarrow>
   parse_date env (dict_get (p_due_date data)) = Inr d \<Longrightarrow>
   create_task env data st = (BadRequest400 ''Title and due_date are required'', st)"
  by (simp add: create_task_def)

lemma create_event_rejects:
  "\<not> truthy_str (dict_get (e_title data)) \<or> \<not> truthy_str (dict_get (e_start_time data)) \<Longrightarrow>
   create_event env data st = (BadRequest400 ''Title and start_time are required'', st)"
  by (auto simp: create_event_def)

lemma create_journal_entry_rejects:
  "\<not> truthy_str (dict_get (j_entry_type data)) \<or> \<not> truthy_json (content_get (j_content data)) \<Longrightarrow>
   create_journal_entry env data st = (BadRequest400 ''entry_type and content are required'', st)"
  by (auto simp: create_journal_entry_def)

lemma create_task_nothing_partial:
  "(\<exists>body. fst (create_task env data st) = Created201 body) \<or> snd (create_task env data st) = st"
  by (cases rule: create_task_cases [of env data st]) simp_all

lemma parse_date_unparseable:
  "s \<noteq> [] \<Longrightarrow> fromisoformat env (replace_Z s) = None \<Longrightarrow> strptime_ymd env s = None \<Longrightarrow>
   parse_date env (Some s) = Inl ValueError"
  by (simp add: parse_date_def)

lemma create_task_unparseable_due_date:
  "parse_date env (dict_get (p_due_date data)) = Inl e \<Longrightarrow>
   create_task env data st = (Unhandled e, st)"
  by (simp add: create_task_def)

text \<open>
  C7 says that a creation request that misses a required field or fails its shape check,
  a non-empty unparseable due date included, is surfaced as a rejected request and
  stores nothing. At a due date that is a non-empty string but no date the code does
  otherwise: \<^verbatim>\<open>parse_date\<close> runs before the guard, the ISO parser fails, the fallback
  \<^verbatim>\<open>strptime\<close> fails too, and its \<^verbatim>\<open>ValueError\<close> leaves the handler. Nothing is
  stored, but the request is not answered with the handler's 400 rejection.
\<close>

theorem create_task_bad_date:
  "create_task ref_env bad_date_request empty_db = (Unhandled ValueError, empty_db)"
  by (simp add: create_task_def bad_date_request_def plain_request_def daily_request_def
      parse_date_def ref_parse_defs)

text \<open>Read off the outcome: the response is the unhandled error and the table is empty.\<close>

theorem create_task_bad_date_witness:
  "fst (create_task ref_env bad_date_request empty_db) = Unhandled ValueError
   \<and> tasks (snd (create_task ref_env bad_date_request empty_db)) = []"
  using create_task_bad_date by (simp add: empty_db_def)

subsection \<open>Group identity of created tasks\<close>

lemma uuid_str_nonempty: "uuid_str u \<noteq> []"
  by (simp add: uuid_str_def Let_def)


lemma find_snoc_fresh:
  "\<forall>r \<in> set xs. \<not> P r \<Longrightarrow> P t \<Longrightarrow> find P (xs @ [t]) = Some t"
  by (induction xs) auto

lemma create_task_new_rows:
  "list_all (\<lambda>r. (task_recurrence_group_id r \<noteq> None) = (task_is_recurring r = Some True))
     (drop (length (tasks st)) (tasks (snd (create_task env data st))))"
proof (cases rule: create_task_cases [of env data st])
  case unchanged
  then show ?thesis by simp
next
  case (created tmpl sibs)
  have tmpl: "(task_recurrence_group_id tmpl \<noteq> None) = (task_is_recurring tmpl = Some True)"
    unfolding created(6,7) by (simp add: truthy_default)
  have "list_all (\<lambda>r. (task_recurrence_group_id r \<noteq> None) = (task_is_recurring r = Some True))
          (tmpl # sibs)"
    using tmpl created(8) by (auto simp: list_all_iff)
  then show ?thesis
    unfolding created(1) by simp
qed

text \<open>
  C9. Every row a creation request adds to the table has a group identity if and only
  if its recurrence flag is \<^verbatim>\<open>true\<close>. In particular a well-formed request with
  recurrence flag \<^verbatim>\<open>true\<close> and a cadence other than \<^verbatim>\<open>daily\<close> and \<^verbatim>\<open>weekly\<close>
  adds the template alone, and the template carries the freshly drawn UUID as its group
  identity. A later delete of it with \<^verbatim>\<open>apply_to=all_future\<close> therefore satisfies the
  condition of the series branch and runs the bulk delete over its group; when no older
  row carries the same UUID, that removes the template and nothing else.
\<close>

theorem create_task_group_identity:
  "list_all (\<lambda>r. (task_recurrence_group_id r \<noteq> None) = (task_is_recurring r = Some True))
     (drop (length (tasks st)) (tasks (snd (create_task env data st))))
   \<and> (truthy_str (dict_get (p_title data))
        \<and> parse_date env (dict_get (p_due_date data)) = Inr (Some D)
        \<and> parse_datetime env (dict_get (p_start_time data)) = Inr s
        \<and> parse_datetime env (dict_get (p_end_time data)) = Inr e
        \<and> p_is_recurring data = Val True
        \<and> dict_get (p_recurrence_type data) \<noteq> Some ''daily''
        \<and> dict_get (p_recurrence_type data) \<noteq> Some ''weekly''
      \<longrightarrow> (\<exists>t. tasks (snd (create_task env data st)) = tasks st @ [t]
             \<and> task_is_recurring t = Some True
             \<and> task_recurrence_group_id t = Some (uuid_str (uuid4 env))
             \<and> series_scope (Some ''all_future'') t
             \<and> delete_task (task_id t) (Some ''all_future'') (snd (create_task env data st))
                 = (NoContent204,
                    (snd (create_task env data st))
                      \<lparr>tasks := filter (\<lambda>r. \<not> in_series_from t r)
                                  (tasks (snd (create_task env data st)))\<rparr>)
             \<and> ((\<forall>r \<in> set (tasks st).
                     task_recurrence_group_id r \<noteq> Some (uuid_str (uuid4 env)))
                 \<longrightarrow> snd (delete_task (task_id t) (Some ''all_future'')
                            (snd (create_task env data st))) = st)))"
proof (intro conjI impI)
  show "list_all (\<lambda>r. (task_recurrence_group_id r \<noteq> None) = (task_is_recurring r = Some True))
     (drop (length (tasks st)) (tasks (snd (create_task env data st))))"
    by (rule create_task_new_rows)
next
  assume a: "truthy_str (dict_get (p_title data))
        \<and> parse_date env (dict_get (p_due_date data)) = Inr (Some D)
        \<and> parse_datetime env (dict_get (p_start_time data)) = Inr s
        \<and> parse_datetime env (dict_get (p_end_time data)) = Inr e
        \<and> p_is_recurring data = Val True
        \<and> dict_get (p_recurrence_type data) \<noteq> Some ''daily''
        \<and> dict_get (p_recurrence_type data) \<noteq> Some ''weekly''"
  define t where
    "t = \<lparr> task_id = next_id (map task_id (tasks st)),
           task_title = dict_get (p_title data),
           task_description = dict_get (p_description data),
           task_is_recurring = Some True,
           task_is_completed = Some False,
           task_due_date = Some D,
           task_start_time = s,
           task_end_time = e,
           task_time_tracked_seconds = Some 0,
           task_created_at = Some (now env 0),
           task_recurrence_type = dict_get (p_recurrence_type data),
           task_recurrence_group_id = Some (uuid_str (uuid4 env)) \<rparr>"
  have res: "snd (create_task env data st) = st\<lparr>tasks := tasks st @ [t]\<rparr>"
    using a create_task_single [of data env D s e st]
    by (simp add: t_def Let_def truthy_bool_def column_default_def)
  have scope: "series_scope (Some ''all_future'') t"
    by (simp add: series_scope_def t_def truthy_str_def uuid_str_nonempty)
  have "\<forall>r \<in> set (tasks st). \<not> task_id r = task_id t"
  proof
    fix r assume "r \<in> set (tasks st)"
    then have "task_id r < next_id (map task_id (tasks st))"
      by (intro next_id_fresh) simp
    then show "\<not> task_id r = task_id t"
      by (simp add: t_def)
  qed
  then have found: "get_or_404 (task_id t) (tasks st @ [t]) = Some t"
    unfolding get_or_404_def by (intro find_snoc_fresh) simp_all
  have del: "delete_task (task_id t) (Some ''all_future'') (st\<lparr>tasks := tasks st @ [t]\<rparr>)
        = (NoContent204,
           st\<lparr>tasks := filter (\<lambda>r. \<not> in_series_from t r) (tasks st @ [t])\<rparr>)"
    using found scope by (simp add: delete_task_def)
  have self: "in_series_from t t"
    by (simp add: in_series_from_def sql_ge_def t_def)
  have alone: "\<forall>r \<in> set (tasks st). task_recurrence_group_id r \<noteq> Some (uuid_str (uuid4 env))
      \<Longrightarrow> filter (\<lambda>r. \<not> in_series_from t r) (tasks st @ [t]) = tasks st"
    using self by (auto simp: in_series_from_def t_def filter_id_conv)
  show "\<exists>t. tasks (snd (create_task env data st)) = tasks st @ [t]
             \<and> task_is_recurring t = Some True
             \<and> task_recurrence_group_id t = Some (uuid_str (uuid4 env))
             \<and> series_scope (Some ''all_future'') t
             \<and> delete_task (task_id t) (Some ''all_future'') (snd (create_task env data st))
                 = (NoContent204,
                    (snd (create_task env data st))
                      \<lparr>tasks := filter (\<lambda>r. \<not> in_series_from t r)
                                  (tasks (snd (create_task env data st)))\<rparr>)
             \<and> ((\<forall>r \<in> set (tasks st).
                     task_recurrence_group_id r \<noteq> Some (uuid_str (uuid4 env)))
                 \<longrightarrow> snd (delete_task (task_id t) (Some ''all_future'')
                            (snd (create_task env data st))) = st)"
    unfolding res
    using scope del alone
    by (intro exI [of _ t]) (simp add: t_def)
qed

theorem create_task_group_identity_witness:
  "map task_recurrence_group_id (tasks (snd (create_task ref_env monthly_request empty_db)))
     = [Some (uuid_str (uuid4 ref_env))]
   \<and> map task_is_recurring (tasks (snd (create_task ref_env monthly_request empty_db)))
       = [Some True]
   \<and> snd (delete_task 1 (Some ''all_future'')
            (snd (create_task ref_env monthly_request empty_db))) = empty_db"
proof -
  have title: "truthy_str (dict_get (p_title monthly_request))"
    by (simp add: monthly_request_def daily_request_def truthy_str_def)
  have due: "parse_date ref_env (dict_get (p_due_date monthly_request)) = Inr (Some 738900)"
    by (simp add: monthly_request_def daily_request_def parse_date_def ref_parse_defs)
  have start: "parse_datetime ref_env (dict_get (p_start_time monthly_request))
                 = Inr (Some (DateTime 738900 34200000000 (Some 0)))"
    by (simp add: monthly_request_def daily_request_def parse_datetime_def ref_parse_defs)
  have "end": "parse_datetime ref_env (dict_get (p_end_time monthly_request)) = Inr None"
    by (simp add: monthly_request_def daily_request_def parse_datetime_def)
  have flag: "p_is_recurring monthly_request = Val True"
    by (simp add: monthly_request_def daily_request_def)
  have cadence: "dict_get (p_recurrence_type monthly_request) \<noteq> Some ''daily''"
    "dict_get (p_recurrence_type monthly_request) \<noteq> Some ''weekly''"
    by (simp_all add: monthly_request_def daily_request_def)
  from create_task_group_identity [of empty_db ref_env monthly_request 738900
      "Some (DateTime 738900 34200000000 (Some 0))" None]
    title due start "end" flag cadence
  obtain t where
    t: "tasks (snd (create_task ref_env monthly_request empty_db)) = tasks empty_db @ [t]"
    and r: "task_is_recurring t = Some True"
    and g: "task_recurrence_group_id t = Some (uuid_str (uuid4 ref_env))"
    and d: "(\<forall>r \<in> set (tasks empty_db).
                task_recurrence_group_id r \<noteq> Some (uuid_str (uuid4 ref_env)))
            \<longrightarrow> snd (delete_task (task_id t) (Some ''all_future'')
                       (snd (create_task ref_env monthly_request empty_db))) = empty_db"
    by blast
  have single: "tasks (snd (create_task ref_env monthly_request empty_db)) =
     [\<lparr> task_id = 1,
        task_title = Some ''Water the plants'',
        task_description = None,
        task_is_recurring = Some True,
        task_is_completed = Some False,
        task_due_date = Some 738900,
        task_start_time = Some (DateTime 738900 34200000000 (Some 0)),
        task_end_time = None,
        task_time_tracked_seconds = Some 0,
        task_created_at = Some (now ref_env 0),
        task_recurrence_type = Some ''monthly'',
        task_recurrence_group_id = Some (uuid_str (uuid4 ref_env)) \<rparr>]"
    using create_task_single [OF title due start "end", of empty_db] flag
    by (simp add: Let_def empty_db_def next_id_def monthly_request_def daily_request_def
        truthy_bool_def column_default_def)
  have id: "task_id t = 1"
    using t unfolding single by (auto simp: empty_db_def)
  show ?thesis
    using t r g d unfolding id by (simp add: empty_db_def)
qed

section \<open>Deleting tasks\<close>

subsection \<open>The table invariant\<close>

lemma store_ok_empty: "store_ok empty_db"
  by (simp add: store_ok_def empty_db_def)

lemma store_ok_create_task:
  assumes "store_ok st"
  shows "store_ok (snd (create_task env data st))"
proof (cases rule: create_task_cases [of env data st])
  case unchanged
  with assms show ?thesis by simp
next
  case (created tmpl sibs)
  have fresh: "\<forall>i \<in> set (map task_id (tasks st)). i < task_id tmpl"
    unfolding created(2) by (simp add: next_id_fresh)
  have "distinct (map task_id (tasks st) @ task_id tmpl # map task_id sibs)"
    using assms fresh unfolding created(3) store_ok_def by (auto simp del: upt_Suc)
  moreover have "list_all (\<lambda>t. task_title t \<noteq> None \<and> task_due_date t \<noteq> None) sibs"
    using created(5,8) by (auto simp: list_all_iff)
  ultimately show ?thesis
    using assms created(4,5) unfolding created(1) store_ok_def by simp
qed

lemma update_task_refused:
  assumes "get_or_404 tid (tasks st) = Some task"
    and "bind_tracked env (p_time_tracked_seconds data) = Some e"
  shows "update_task env tid data st = (Unhandled e, st)"
  using assms by (simp add: update_task_def Let_def)

lemma update_task_found:
  assumes "get_or_404 tid (tasks st) = Some task"
    and "bind_tracked env (p_time_tracked_seconds data) = None"
  shows "update_task env tid data st =
     (case dict_get_default (p_title data) (task_title task) of
        None \<Rightarrow> (Unhandled IntegrityError, st)
      | Some title \<Rightarrow>
          (Ok200 (to_dict env
             (task\<lparr> task_title := Some title,
                    task_description :=
                      dict_get_default (p_description data) (task_description task),
                    task_is_completed :=
                      dict_get_default (p_is_completed data) (task_is_completed task),
                    task_time_tracked_seconds :=
                      dict_get_default (p_time_tracked_seconds data)
                        (task_time_tracked_seconds task) \<rparr>)),
           st\<lparr>tasks :=
                map (\<lambda>r. if task_id r = tid
                         then r\<lparr> task_title := Some title,
                                task_description :=
                                  dict_get_default (p_description data) (task_description task),
                                task_is_completed :=
                                  dict_get_default (p_is_completed data) (task_is_completed task),
                                task_time_tracked_seconds :=
                                  dict_get_default (p_time_tracked_seconds data)
                                    (task_time_tracked_seconds task) \<rparr>
                         else r)
                  (tasks st)\<rparr>))"
  using assms by (simp add: update_task_def Let_def split: option.splits)

lemma store_ok_update_task:
  assumes "store_ok st"
  shows "store_ok (snd (update_task env tid data st))"
proof (cases "get_or_404 tid (tasks st)")
  case None
  with assms show ?thesis by (simp add: update_task_def)
next
  case (Some task)
  note found = this
  show ?thesis
  proof (cases "bind_tracked env (p_time_tracked_seconds data)")
    case (Some e)
    with assms show ?thesis
      unfolding update_task_refused [OF found Some] by simp
  next
    case None
    note accepted = this
    show ?thesis
    proof (cases "dict_get_default (p_title data) (task_title task)")
      case None
      with assms show ?thesis
        unfolding update_task_found [OF found accepted] by simp
    next
      case (Some title)
      let ?g = "\<lambda>r. if task_id r = tid
                   then r\<lparr> task_title := Some title,
                          task_description :=
                            dict_get_default (p_description data) (task_description task),
                          task_is_completed :=
                            dict_get_default (p_is_completed data) (task_is_completed task),
                          task_time_tracked_seconds :=
                            dict_get_default (p_time_tracked_seconds data)
                              (task_time_tracked_seconds task) \<rparr>
                   else r"
      have res: "snd (update_task env tid data st) = st\<lparr>tasks := map ?g (tasks st)\<rparr>"
        unfolding update_task_found [OF found accepted] Some
        by simp
      have ids: "map task_id (map ?g (tasks st)) = map task_id (tasks st)"
        by simp
      have cols: "list_all (\<lambda>t. task_title t \<noteq> None \<and> task_due_date t \<noteq> None)
                    (map ?g (tasks st))"
        using assms by (auto simp: store_ok_def list_all_iff)
      have keys: "distinct (map task_id (map ?g (tasks st)))"
        unfolding ids using assms by (simp add: store_ok_def)
      show ?thesis
        using assms cols keys unfolding res store_ok_def by (simp del: map_map)
    qed
  qed
qed

lemma store_ok_delete_task:
  "store_ok st \<Longrightarrow> store_ok (snd (delete_task tid apply_to st))"
  by (auto simp: store_ok_def delete_task_def distinct_map_filter list_all_iff
      split: option.splits)

lemma get_or_404_Some:
  "get_or_404 tid rows = Some T \<Longrightarrow> T \<in> set rows \<and> task_id T = tid"
  by (auto simp: get_or_404_def find_Some_iff)

lemma filter_key:
  "distinct (map f xs) \<Longrightarrow> x \<in> set xs \<Longrightarrow> filter (\<lambda>r. f r \<noteq> f x) xs = filter (\<lambda>r. r \<noteq> x) xs"
  by (rule filter_cong) (auto simp: distinct_map inj_on_def)

subsection \<open>Deleting a series from one instance on\<close>

text \<open>
  C2. Let \<open>T\<close> be the stored task a delete request with \<^verbatim>\<open>apply_to=all_future\<close>
  addresses, in a table the endpoints have built (\<open>store_ok\<close>). If \<open>T\<close> has no group
  identity, the request deletes exactly \<open>T\<close>. Otherwise \<open>T\<close> has a due date \<open>D\<close> and
  the request deletes exactly the rows of \<open>T\<close>'s group whose due date is \<open>D\<close> or
  later; \<open>T\<close> is among them, and every row of the group with an earlier due date is
  still in the table, unchanged.
\<close>

theorem delete_task_series_from_here:
  assumes ok: "store_ok st"
    and found: "get_or_404 tid (tasks st) = Some T"
  shows
    "(\<not> truthy_str (task_recurrence_group_id T) \<longrightarrow>
        delete_task tid (Some ''all_future'') st
          = (NoContent204, st\<lparr>tasks := filter (\<lambda>r. r \<noteq> T) (tasks st)\<rparr>))
     \<and> (truthy_str (task_recurrence_group_id T) \<longrightarrow>
        (\<exists>D. task_due_date T = Some D
          \<and> delete_task tid (Some ''all_future'') st
              = (NoContent204,
                 st\<lparr>tasks :=
                      filter (\<lambda>r. \<not> (task_recurrence_group_id r = task_recurrence_group_id T
                                      \<and> (\<exists>d. task_due_date r = Some d \<and> D \<le> d)))
                        (tasks st)\<rparr>)
          \<and> T \<notin> set (tasks (snd (delete_task tid (Some ''all_future'') st)))
          \<and> (\<forall>r \<in> set (tasks st).
                task_recurrence_group_id r = task_recurrence_group_id T
                \<and> (\<exists>d. task_due_date r = Some d \<and> d < D)
                \<longrightarrow> r \<in> set (tasks (snd (delete_task tid (Some ''all_future'') st))))))"
proof -
  from get_or_404_Some [OF found] have T: "T \<in> set (tasks st)" and tid: "task_id T = tid"
    by simp_all
  from ok T obtain D where D: "task_due_date T = Some D"
    by (auto simp: store_ok_def list_all_iff)
  have single: "filter (\<lambda>r. task_id r \<noteq> task_id T) (tasks st) = filter (\<lambda>r. r \<noteq> T) (tasks st)"
    using ok T by (intro filter_key) (simp_all add: store_ok_def)
  have series: "\<And>r. in_series_from T r
      = (task_recurrence_group_id r = task_recurrence_group_id T
         \<and> (\<exists>d. task_due_date r = Some d \<and> D \<le> d))"
    by (auto simp: in_series_from_def sql_ge_def D split: option.splits)
  show ?thesis
    using found D T
    by (auto simp: delete_task_def series_scope_def single series)
qed

lemma weekly_store:
  "snd (create_task ref_env weekly_request empty_db) =
     (let template =
            \<lparr> task_id = 1,
              task_title = Some ''Water the plants'',
              task_description = None,
              task_is_recurring = Some True,
              task_is_completed = Some False,
              task_due_date = Some 738900,
              task_start_time = None,
              task_end_time = None,
              task_time_tracked_seconds = Some 0,
              task_created_at = Some (now ref_env 0),
              task_recurrence_type = Some ''weekly'',
              task_recurrence_group_id = Some (uuid_str (uuid4 ref_env)) \<rparr>
      in empty_db\<lparr>tasks := template #
                 map (\<lambda>i. template
                        \<lparr> task_id := 1 + i,
                          task_due_date := Some (738900 + 7 * int i),
                          task_created_at := Some (now ref_env i) \<rparr>)
                   [1, 2, 3, 4, 5, 6, 7, 8, 9, 10, 11, 12]\<rparr>)"
proof -
  have l: "[1..<Suc 12] = [1, 2, 3, 4, 5, 6, 7, 8, 9, 10, 11, 12]"
    by (simp add: upt_rec)
  have title: "truthy_str (dict_get (p_title weekly_request))"
    by (simp add: weekly_request_def daily_request_def truthy_str_def)
  have due: "parse_date ref_env (dict_get (p_due_date weekly_request)) = Inr (Some 738900)"
    by (simp add: weekly_request_def daily_request_def parse_date_def ref_parse_defs)
  have flag: "p_is_recurring weekly_request = Val True"
    by (simp add: weekly_request_def daily_request_def)
  have cadence:
    "(p_recurrence_type weekly_request = Val ''daily'' \<and> (7::int) = 1 \<and> (12::nat) = 90)
     \<or> (p_recurrence_type weekly_request = Val ''weekly'' \<and> (7::int) = 7 \<and> (12::nat) = 12)"
    by (simp add: weekly_request_def)
  have no_start: "\<not> truthy_str (dict_get (p_start_time weekly_request))"
    and no_end: "\<not> truthy_str (dict_get (p_end_time weekly_request))"
    by (simp_all add: weekly_request_def daily_request_def truthy_str_def)
  have lower: "(0::int) < 738900" by simp
  have upper: "(738900::int) + 7 * int 12 \<le> MAXORDINAL"
    by (simp add: MAXORDINAL_def)
  show ?thesis
    unfolding create_task_recurring [OF title due flag cadence no_start no_end lower upper] l
    by (simp add: Let_def empty_db_def next_id_def weekly_request_def daily_request_def)
qed

text \<open>
  A weekly series of 13 tasks due on 2024-01-15, 01-22, 01-29 and so on: deleting from
  the third on leaves the first two.
\<close>

theorem delete_task_series_from_here_witness:
  "store_ok (snd (create_task ref_env weekly_request empty_db))
   \<and> map task_id (tasks (snd (create_task ref_env weekly_request empty_db))) = [1..<14]
   \<and> map task_id
        (tasks (snd (delete_task 3 (Some ''all_future'')
                       (snd (create_task ref_env weekly_request empty_db))))) = [1, 2]
   \<and> map task_due_date
        (tasks (snd (delete_task 3 (Some ''all_future'')
                       (snd (create_task ref_env weekly_request empty_db)))))
       = [Some 738900, Some 738907]"
proof -
  define st where "st = snd (create_task ref_env weekly_request empty_db)"
  define T where
    "T = \<lparr> task_id = 3,
           task_title = Some ''Water the plants'',
           task_description = None,
           task_is_recurring = Some True,
           task_is_completed = Some False,
           task_due_date = Some 738914,
           task_start_time = None,
           task_end_time = None,
           task_time_tracked_seconds = Some 0,
           task_created_at = Some (now ref_env 2),
           task_recurrence_type = Some ''weekly'',
           task_recurrence_group_id = Some (uuid_str (uuid4 ref_env)) \<rparr>"
  have ok: "store_ok st"
    unfolding st_def by (intro store_ok_create_task store_ok_empty)
  have rows: "tasks st = tasks (snd (create_task ref_env weekly_request empty_db))"
    by (simp add: st_def)
  have found: "get_or_404 3 (tasks st) = Some T"
    unfolding rows weekly_store T_def
    by (simp add: Let_def get_or_404_def empty_db_def)
  have grp: "truthy_str (task_recurrence_group_id T)"
    by (simp add: T_def truthy_str_def uuid_str_nonempty)
  from delete_task_series_from_here [OF ok found] grp
  have del: "delete_task 3 (Some ''all_future'') st
              = (NoContent204,
                 st\<lparr>tasks :=
                      filter (\<lambda>r. \<not> (task_recurrence_group_id r = task_recurrence_group_id T
                                      \<and> (\<exists>d. task_due_date r = Some d \<and> 738914 \<le> d)))
                        (tasks st)\<rparr>)"
    by (auto simp: T_def)
  have ids: "map task_id (tasks st) = [1..<14]"
    unfolding rows weekly_store by (simp add: Let_def empty_db_def upt_rec)
  show ?thesis
    using ok ids unfolding st_def [symmetric] del
    unfolding rows weekly_store T_def
    by (simp add: Let_def empty_db_def)
qed

section \<open>Updating a task\<close>

text \<open>
  C8. An update request leaves the identifier, due date, recurrence flag, recurrence
  cadence, group identity, start and end instants and creation instant of every stored
  task as they were, whatever the payload and whatever the outcome of the request; only
  title, description, completion flag and tracked duration can differ afterwards. The
  events and the journal are not touched.
\<close>

theorem update_task_frame:
  "map task_id (tasks (snd (update_task env tid data st))) = map task_id (tasks st)
   \<and> map task_due_date (tasks (snd (update_task env tid data st))) = map task_due_date (tasks st)
   \<and> map task_is_recurring (tasks (snd (update_task env tid data st)))
       = map task_is_recurring (tasks st)
   \<and> map task_recurrence_type (tasks (snd (update_task env tid data st)))
       = map task_recurrence_type (tasks st)
   \<and> map task_recurrence_group_id (tasks (snd (update_task env tid data st)))
       = map task_recurrence_group_id (tasks st)
   \<and> map task_start_time (tasks (snd (update_task env tid data st)))
       = map task_start_time (tasks st)
   \<and> map task_end_time (tasks (snd (update_task env tid data st))) = map task_end_time (tasks st)
   \<and> map task_created_at (tasks (snd (update_task env tid data st)))
       = map task_created_at (tasks st)
   \<and> events (snd (update_task env tid data st)) = events st
   \<and> journal (snd (update_task env tid data st)) = journal st"
  by (simp add: update_task_def Let_def comp_def split: option.splits)


subsection \<open>Explicit nulls in a task update\<close>

lemma find_map_key:
  assumes "find (\<lambda>r. f r = k) rows = Some T" and "\<And>r. f (g r) = f r"
  shows "find (\<lambda>r. f r = k) (map g rows) = Some (g T)"
  using assms by (induction rows) (auto split: if_splits)

lemma get_or_404_map:
  assumes "get_or_404 tid rows = Some T" and "\<And>r. task_id (g r) = task_id r"
  shows "get_or_404 tid (map g rows) = Some (g T)"
  using assms unfolding get_or_404_def by (rule find_map_key)

lemma plain_store:
  "snd (create_task ref_env plain_request empty_db) =
     empty_db\<lparr>tasks :=
       [\<lparr> task_id = 1,
          task_title = Some ''Water the plants'',
          task_description = None,
          task_is_recurring = Some False,
          task_is_completed = Some False,
          task_due_date = Some 738900,
          task_start_time = None,
          task_end_time = None,
          task_time_tracked_seconds = Some 0,
          task_created_at = Some (now ref_env 0),
          task_recurrence_type = None,
          task_recurrence_group_id = None \<rparr>]\<rparr>"
proof -
  have title: "truthy_str (dict_get (p_title plain_request))"
    by (simp add: plain_request_def daily_request_def truthy_str_def)
  have due: "parse_date ref_env (dict_get (p_due_date plain_request)) = Inr (Some 738900)"
    by (simp add: plain_request_def daily_request_def parse_date_def ref_parse_defs)
  have start: "parse_datetime ref_env (dict_get (p_start_time plain_request)) = Inr None"
    and "end": "parse_datetime ref_env (dict_get (p_end_time plain_request)) = Inr None"
    by (simp_all add: plain_request_def daily_request_def parse_datetime_def)
  show ?thesis
    using create_task_single [OF title due start "end", of empty_db]
    by (simp add: Let_def empty_db_def next_id_def plain_request_def daily_request_def
        truthy_bool_def column_default_def)
qed

text \<open>
  C10 (as amended). The task update does not tell an explicit \<^verbatim>\<open>null\<close> from a value:
  each of the four assignments takes a \<^verbatim>\<open>null\<close> as the new value. For the task
  addressed by the request, in a table the endpoints have built:
  \<^item> when the driver refuses the tracked duration of the payload, the request ends in
    the driver's exception and the database is unchanged, whatever else the payload
    holds;
  \<^item> otherwise a \<^verbatim>\<open>null\<close> title makes the commit fail on the NOT NULL constraint of
    the column; the request ends in an unhandled \<^verbatim>\<open>IntegrityError\<close> and the database
    is unchanged;
  \<^item> otherwise the request is accepted: it is answered 200, and a \<^verbatim>\<open>null\<close>
    description, completion flag or tracked duration overwrites the stored value with
    \<^verbatim>\<open>NULL\<close>.
\<close>

theorem update_task_null_fields:
  assumes ok: "store_ok st" and found: "get_or_404 tid (tasks st) = Some T"
  shows
    "(\<forall>e. bind_tracked env (p_time_tracked_seconds data) = Some e \<longrightarrow>
          update_task env tid data st = (Unhandled e, st))
     \<and> (bind_tracked env (p_time_tracked_seconds data) = None \<and> p_title data = Null \<longrightarrow>
          update_task env tid data st = (Unhandled IntegrityError, st))
     \<and> (bind_tracked env (p_time_tracked_seconds data) = None \<and> p_title data \<noteq> Null \<longrightarrow>
          (\<exists>T'. get_or_404 tid (tasks (snd (update_task env tid data st))) = Some T'
             \<and> fst (update_task env tid data st) = Ok200 (to_dict env T')
             \<and> (p_description data = Null \<longrightarrow> task_description T' = None)
             \<and> (p_is_completed data = Null \<longrightarrow> task_is_completed T' = None)
             \<and> (p_time_tracked_seconds data = Null \<longrightarrow> task_time_tracked_seconds T' = None)))"
proof (intro conjI impI allI)
  fix e
  assume "bind_tracked env (p_time_tracked_seconds data) = Some e"
  with found show "update_task env tid data st = (Unhandled e, st)"
    by (rule update_task_refused)
next
  assume "bind_tracked env (p_time_tracked_seconds data) = None \<and> p_title data = Null"
  then have accepted: "bind_tracked env (p_time_tracked_seconds data) = None"
    and null: "p_title data = Null"
    by simp_all
  from null show "update_task env tid data st = (Unhandled IntegrityError, st)"
    unfolding update_task_found [OF found accepted] by simp
next
  assume "bind_tracked env (p_time_tracked_seconds data) = None \<and> p_title data \<noteq> Null"
  then have accepted: "bind_tracked env (p_time_tracked_seconds data) = None"
    and present: "p_title data \<noteq> Null"
    by simp_all
  from get_or_404_Some [OF found] have T: "T \<in> set (tasks st)" and tid: "task_id T = tid"
    by simp_all
  from ok T have "task_title T \<noteq> None"
    by (auto simp: store_ok_def list_all_iff)
  with present obtain title where
    title: "dict_get_default (p_title data) (task_title T) = Some title"
    by (cases "p_title data") auto
  let ?g = "\<lambda>r. if task_id r = tid
               then r\<lparr> task_title := Some title,
                      task_description :=
                        dict_get_default (p_description data) (task_description T),
                      task_is_completed :=
                        dict_get_default (p_is_completed data) (task_is_completed T),
                      task_time_tracked_seconds :=
                        dict_get_default (p_time_tracked_seconds data)
                          (task_time_tracked_seconds T) \<rparr>
               else r"
  have "get_or_404 tid (map ?g (tasks st)) = Some (?g T)"
    using found by (rule get_or_404_map) simp
  then show "\<exists>T'. get_or_404 tid (tasks (snd (update_task env tid data st))) = Some T'
             \<and> fst (update_task env tid data st) = Ok200 (to_dict env T')
             \<and> (p_description data = Null \<longrightarrow> task_description T' = None)
             \<and> (p_is_completed data = Null \<longrightarrow> task_is_completed T' = None)
             \<and> (p_time_tracked_seconds data = Null \<longrightarrow> task_time_tracked_seconds T' = None)"
    unfolding update_task_found [OF found accepted] title
    by (intro exI [of _ "?g T"]) (simp add: tid)
qed

theorem update_task_null_fields_witness:
  "map task_is_completed (tasks (snd (create_task ref_env plain_request empty_db)))
     = [Some False]
   \<and> bind_tracked ref_env (p_time_tracked_seconds null_fields_update) = None
   \<and> p_title null_fields_update \<noteq> Null
   \<and> (\<exists>T'. get_or_404 1
              (tasks (snd (update_task ref_env 1 null_fields_update
                             (snd (create_task ref_env plain_request empty_db))))) = Some T'
          \<and> fst (update_task ref_env 1 null_fields_update
                   (snd (create_task ref_env plain_request empty_db)))
              = Ok200 (to_dict ref_env T')
          \<and> task_description T' = None
          \<and> task_is_completed T' = None
          \<and> task_time_tracked_seconds T' = None)"
proof -
  have ok: "store_ok (snd (create_task ref_env plain_request empty_db))"
    by (intro store_ok_create_task store_ok_empty)
  have found: "get_or_404 1 (tasks (snd (create_task ref_env plain_request empty_db))) =
     Some \<lparr> task_id = 1,
          task_title = Some ''Water the plants'',
          task_description = None,
          task_is_recurring = Some False,
          task_is_completed = Some False,
          task_due_date = Some 738900,
          task_start_time = None,
          task_end_time = None,
          task_time_tracked_seconds = Some 0,
          task_created_at = Some (now ref_env 0),
          task_recurrence_type = None,
          task_recurrence_group_id = None \<rparr>"
    unfolding plain_store by (simp add: get_or_404_def empty_db_def)
  have created:
    "map task_is_completed (tasks (snd (create_task ref_env plain_request empty_db)))
       = [Some False]"
    unfolding plain_store by (simp add: empty_db_def)
  have accepted: "bind_tracked ref_env (p_time_tracked_seconds null_fields_update) = None"
    by (simp add: bind_tracked_def null_fields_update_def null_title_update_def)
  have present: "p_title null_fields_update \<noteq> Null"
    by (simp add: null_fields_update_def null_title_update_def)
  have nulls: "p_description null_fields_update = Null"
    "p_is_completed null_fields_update = Null"
    "p_time_tracked_seconds null_fields_update = Null"
    by (simp_all add: null_fields_update_def null_title_update_def)
  from update_task_null_fields [OF ok found, of ref_env null_fields_update]
    accepted present nulls
  have "\<exists>T'. get_or_404 1
              (tasks (snd (update_task ref_env 1 null_fields_update
                             (snd (create_task ref_env plain_request empty_db))))) = Some T'
          \<and> fst (update_task ref_env 1 null_fields_update
                   (snd (create_task ref_env plain_request empty_db)))
              = Ok200 (to_dict ref_env T')
          \<and> task_description T' = None
          \<and> task_is_completed T' = None
          \<and> task_time_tracked_seconds T' = None"
    by simp
  with created accepted present show ?thesis
    by simp
qed

text \<open>
  C10 as stated fails for the title: with \<^verbatim>\<open>{"title": null}\<close> the stored title is
  not overwritten.
\<close>

theorem update_task_null_title_counterexample:
  "p_title null_title_update = Null
   \<and> map task_title (tasks (snd (create_task ref_env plain_request empty_db)))
       = [Some ''Water the plants'']
   \<and> fst (update_task ref_env 1 null_title_update
            (snd (create_task ref_env plain_request empty_db))) = Unhandled IntegrityError
   \<and> map task_title
        (tasks (snd (update_task ref_env 1 null_title_update
                       (snd (create_task ref_env plain_request empty_db)))))
       = [Some ''Water the plants'']"
  unfolding plain_store
  by (simp add: update_task_def bind_tracked_def get_or_404_def null_title_update_def
      empty_db_def Let_def)

text \<open>
  A \<^verbatim>\<open>null\<close> is not written either when the same payload carries a tracked
  duration the driver refuses: with
  \<^verbatim>\<open>{"description": null, "is_completed": null, "time_tracked_seconds": 9223372036854775808}\<close>
  the reference instance ends in an unhandled \<^verbatim>\<open>OverflowError\<close>, the table is as it
  was and the stored completion flag is still \<^verbatim>\<open>False\<close>.
\<close>

lemma update_task_out_of_range:
  "p_description out_of_range_update = Null
   \<and> p_is_completed out_of_range_update = Null
   \<and> p_time_tracked_seconds out_of_range_update = Val (2 ^ 63)
   \<and> update_task ref_env 1 out_of_range_update
        (snd (create_task ref_env plain_request empty_db))
      = (Unhandled OverflowError, snd (create_task ref_env plain_request empty_db))
   \<and> map task_is_completed
        (tasks (snd (update_task ref_env 1 out_of_range_update
                       (snd (create_task ref_env plain_request empty_db)))))
      = [Some False]"
  unfolding plain_store
  by (simp add: update_task_def bind_tracked_def ref_env_def get_or_404_def
      out_of_range_update_def null_title_update_def empty_db_def Let_def)


section \<open>Updating an event\<close>

subsection \<open>The outcomes of an update\<close>

text \<open>
  An update of a stored event ends in one of four ways: the start instant does not parse,
  the title is \<^verbatim>\<open>null\<close> (refused by the NOT NULL column), the end instant is in the
  payload and does not parse, or the request is accepted. Only the last changes the
  database. Both handlers of events keep the invariant.
\<close>

lemma get_event_or_404_Some:
  "get_event_or_404 eid rows = Some E \<Longrightarrow> E \<in> set rows \<and> event_id E = eid"
  by (auto simp: get_event_or_404_def find_Some_iff)

lemma get_event_or_404_map:
  assumes "get_event_or_404 eid rows = Some E" and "\<And>r. event_id (g r) = event_id r"
  shows "get_event_or_404 eid (map g rows) = Some (g E)"
  using assms unfolding get_event_or_404_def by (rule find_map_key)

lemma update_event_found:
  assumes found: "get_event_or_404 eid (events st) = Some E"
    and start: "parse_datetime env (dict_get (e_start_time data)) = Inr s"
    and "end": "dict_contains (e_end_time data) \<Longrightarrow>
                parse_datetime env (dict_get (e_end_time data)) = Inr t"
    and title: "dict_get_default (e_title data) (event_title E) = Some title"
    and stored: "event_start_time E = Some s0"
  shows "\<exists>body. update_event env eid data st =
     (Ok200 body,
      st\<lparr>events :=
          map (\<lambda>r. if event_id r = eid
                   then r\<lparr> event_title := Some title,
                          event_description :=
                            dict_get_default (e_description data) (event_description E),
                          event_start_time :=
                            (case s of None \<Rightarrow> Some s0 | Some x \<Rightarrow> Some x),
                          event_end_time :=
                            (if dict_contains (e_end_time data) then t else event_end_time E) \<rparr>
                   else r)
            (events st)\<rparr>)"
proof (cases "dict_contains (e_end_time data)")
  case True
  show ?thesis
  proof (cases s)
    case None
    then show ?thesis
      using found start "end" [OF True] title stored True
      by (simp add: update_event_def Let_def event_to_dict_def)
  next
    case (Some x)
    then show ?thesis
      using found start "end" [OF True] title stored True
      by (simp add: update_event_def Let_def event_to_dict_def)
  qed
next
  case False
  show ?thesis
  proof (cases s)
    case None
    then show ?thesis
      using found start title stored False
      by (simp add: update_event_def Let_def event_to_dict_def)
  next
    case (Some x)
    then show ?thesis
      using found start title stored False
      by (simp add: update_event_def Let_def event_to_dict_def)
  qed
qed

lemma update_event_no_title:
  assumes "get_event_or_404 eid (events st) = Some E"
    and "dict_get_default (e_title data) (event_title E) = None"
  shows "snd (update_event env eid data st) = st"
proof (cases "parse_datetime env (dict_get (e_start_time data))")
  case (Inl x)
  with assms show ?thesis
    by (simp add: update_event_def Let_def)
next
  case (Inr s)
  show ?thesis
  proof (cases "dict_contains (e_end_time data)")
    case True
    show ?thesis
    proof (cases "parse_datetime env (dict_get (e_end_time data))")
      case (Inl x)
      with assms Inr True show ?thesis
        by (simp add: update_event_def Let_def)
    next
      case (Inr t)
      with assms \<open>parse_datetime env (dict_get (e_start_time data)) = Inr s\<close> True show ?thesis
        by (cases s) (simp_all add: update_event_def Let_def)
    qed
  next
    case False
    with assms Inr show ?thesis
      by (cases s) (simp_all add: update_event_def Let_def)
  qed
qed

lemma update_event_bad_start:
  assumes "get_event_or_404 eid (events st) = Some E"
    and "parse_datetime env (dict_get (e_start_time data)) = Inl x"
  shows "update_event env eid data st = (Unhandled x, st)"
  using assms by (simp add: update_event_def Let_def)

lemma update_event_bad_end:
  assumes "get_event_or_404 eid (events st) = Some E"
    and "parse_datetime env (dict_get (e_start_time data)) = Inr s"
    and "dict_contains (e_end_time data)"
    and "parse_datetime env (dict_get (e_end_time data)) = Inl x"
  shows "update_event env eid data st = (Unhandled x, st)"
  using assms by (simp add: update_event_def Let_def)


lemma parse_datetime_None: "parse_datetime env None = Inr None"
  by (simp add: parse_datetime_def)

lemma update_event_row:
  assumes found: "get_event_or_404 eid (events st) = Some E"
    and start: "parse_datetime env (dict_get (e_start_time data)) = Inr s"
    and "end": "dict_contains (e_end_time data) \<Longrightarrow>
                parse_datetime env (dict_get (e_end_time data)) = Inr t"
    and title: "dict_get_default (e_title data) (event_title E) = Some title"
    and stored: "event_start_time E = Some s0"
  shows "get_event_or_404 eid (events (snd (update_event env eid data st))) =
     Some (E\<lparr> event_title := Some title,
              event_description := dict_get_default (e_description data) (event_description E),
              event_start_time := (case s of None \<Rightarrow> Some s0 | Some x \<Rightarrow> Some x),
              event_end_time :=
                (if dict_contains (e_end_time data) then t else event_end_time E) \<rparr>)"
proof -
  let ?g = "\<lambda>r. if event_id r = eid
                   then r\<lparr> event_title := Some title,
                          event_description :=
                            dict_get_default (e_description data) (event_description E),
                          event_start_time :=
                            (case s of None \<Rightarrow> Some s0 | Some x \<Rightarrow> Some x),
                          event_end_time :=
                            (if dict_contains (e_end_time data) then t else event_end_time E) \<rparr>
                   else r"
  from update_event_found [OF found start "end" title stored]
  obtain body where "update_event env eid data st = (Ok200 body, st\<lparr>events := map ?g (events st)\<rparr>)"
    by blast
  then have res: "events (snd (update_event env eid data st)) = map ?g (events st)"
    by simp
  have "get_event_or_404 eid (map ?g (events st)) = Some (?g E)"
    using found by (rule get_event_or_404_map) simp
  moreover have "event_id E = eid"
    using get_event_or_404_Some [OF found] by simp
  ultimately show ?thesis
    unfolding res by simp
qed



lemma accepted_end_null:
  assumes "dict_contains (e_end_time data) \<Longrightarrow>
             parse_datetime env (dict_get (e_end_time data)) = Inr t"
    and "e_end_time data = Null"
  shows "t = None"
proof -
  have "dict_contains (e_end_time data)"
    using assms(2) by simp
  then have "parse_datetime env (dict_get (e_end_time data)) = Inr t"
    by (rule assms(1))
  then show ?thesis
    unfolding assms(2) by (simp add: parse_datetime_None)
qed

lemma accepted_end_value:
  assumes "dict_contains (e_end_time data) \<Longrightarrow>
             parse_datetime env (dict_get (e_end_time data)) = Inr t"
    and "e_end_time data = Val v"
    and "parse_datetime env (Some v) = Inr t'"
  shows "t = t'"
proof -
  have "dict_contains (e_end_time data)"
    using assms(2) by simp
  then have "parse_datetime env (dict_get (e_end_time data)) = Inr t"
    by (rule assms(1))
  then show ?thesis
    unfolding assms(2) using assms(3) by simp
qed


lemma update_event_outcomes:
  obtains
    (bad_start) x where "parse_datetime env (dict_get (e_start_time data)) = Inl x"
  | (no_title) "e_title data = Null"
  | (bad_end) s x where "parse_datetime env (dict_get (e_start_time data)) = Inr s"
      "dict_contains (e_end_time data)"
      "parse_datetime env (dict_get (e_end_time data)) = Inl x"
  | (accepted) s t where "e_title data \<noteq> Null"
      "parse_datetime env (dict_get (e_start_time data)) = Inr s"
      "dict_contains (e_end_time data) \<Longrightarrow>
         parse_datetime env (dict_get (e_end_time data)) = Inr t"
proof (cases "parse_datetime env (dict_get (e_start_time data))")
  case (Inl x)
  then show ?thesis by (rule bad_start)
next
  case (Inr s)
  show ?thesis
  proof (cases "parse_datetime env (dict_get (e_end_time data))")
    case (Inl x)
    show ?thesis
    proof (cases "dict_contains (e_end_time data)")
      case True
      show ?thesis by (rule bad_end [OF Inr True Inl])
    next
      case False
      show ?thesis
      proof (cases "e_title data = Null")
        case True
        then show ?thesis by (rule no_title)
      next
        case notnull: False
        show ?thesis
          by (rule accepted [OF notnull Inr, of None]) (simp add: False)
      qed
    qed
  next
    case good: (Inr t)
    show ?thesis
    proof (cases "e_title data = Null")
      case True
      then show ?thesis by (rule no_title)
    next
      case notnull: False
      show ?thesis
        by (rule accepted [OF notnull Inr, of t]) (rule good)
    qed
  qed
qed

lemma store_ok_update_event:
  assumes ok: "store_ok st"
  shows "store_ok (snd (update_event env eid data st))"
proof (cases "get_event_or_404 eid (events st)")
  case None
  with ok show ?thesis by (simp add: update_event_def)
next
  case (Some E)
  from get_event_or_404_Some [OF Some] have E: "E \<in> set (events st)"
    by simp
  from ok E obtain title0 s0 where
    title0: "event_title E = Some title0" and s0: "event_start_time E = Some s0"
    by (auto simp: store_ok_def list_all_iff)
  show ?thesis
  proof (cases rule: update_event_outcomes [of env data])
    case (bad_start x)
    with ok show ?thesis
      unfolding update_event_bad_start [OF Some bad_start] by simp
  next
    case no_title
    then have "snd (update_event env eid data st) = st"
      by (intro update_event_no_title [OF Some]) simp
    with ok show ?thesis by simp
  next
    case (bad_end s x)
    with ok show ?thesis
      unfolding update_event_bad_end [OF Some bad_end] by simp
  next
    case (accepted s t)
    from accepted(1) obtain title where
      title: "dict_get_default (e_title data) (event_title E) = Some title"
      using title0 by (cases "e_title data") simp_all
    from update_event_found [OF Some accepted(2,3) title s0]
    obtain body where res: "update_event env eid data st =
       (Ok200 body,
        st\<lparr>events :=
            map (\<lambda>r. if event_id r = eid
                     then r\<lparr> event_title := Some title,
                            event_description :=
                              dict_get_default (e_description data) (event_description E),
                            event_start_time :=
                              (case s of None \<Rightarrow> Some s0 | Some x \<Rightarrow> Some x),
                            event_end_time :=
                              (if dict_contains (e_end_time data) then t else event_end_time E) \<rparr>
                     else r)
              (events st)\<rparr>)"
      by blast
    show ?thesis
      using ok unfolding res store_ok_def
      by (cases s) (auto simp: list_all_iff)
  qed
qed

lemma store_ok_create_event:
  assumes ok: "store_ok st"
  shows "store_ok (snd (create_event env data st))"
proof (cases "\<not> truthy_str (dict_get (e_title data)) \<or> \<not> truthy_str (dict_get (e_start_time data))")
  case True
  with ok show ?thesis
    by (simp add: create_event_rejects)
next
  case False
  then have title: "dict_get (e_title data) \<noteq> None"
    by (auto dest: truthy_str_Some)
  show ?thesis
  proof (cases "parse_datetime env (dict_get (e_start_time data))")
    case (Inl x)
    with ok False show ?thesis
      by (simp add: create_event_def)
  next
    case start: (Inr s)
    show ?thesis
    proof (cases "parse_datetime env (dict_get (e_end_time data))")
      case (Inl x)
      with ok False start show ?thesis
        by (simp add: create_event_def)
    next
      case (Inr t)
      show ?thesis
      proof (cases s)
        case None
        with ok False start Inr show ?thesis
          by (simp add: create_event_def Let_def)
      next
        case (Some x)
        with ok False start Inr title show ?thesis
          by (auto simp: create_event_def Let_def event_to_dict_def store_ok_def)
      qed
    qed
  qed
qed

lemma dentist_store:
  "snd (create_event ref_env dentist_request empty_db) =
     empty_db\<lparr>events :=
       [\<lparr> event_id = 1,
          event_title = Some ''Dentist'',
          event_description = None,
          event_start_time = Some (DateTime 738900 34200000000 (Some 0)),
          event_end_time = Some (DateTime 738900 37800000000 (Some 0)),
          event_created_at = Some (now ref_env 0) \<rparr>]\<rparr>"
proof -
  have start: "parse_datetime ref_env (dict_get (e_start_time dentist_request))
                 = Inr (Some (DateTime 738900 34200000000 (Some 0)))"
    by (simp add: dentist_request_def parse_datetime_def ref_parse_defs)
  have "end": "parse_datetime ref_env (dict_get (e_end_time dentist_request))
                 = Inr (Some (DateTime 738900 37800000000 (Some 0)))"
    by (simp add: dentist_request_def parse_datetime_def ref_parse_defs)
  have guard: "truthy_str (dict_get (e_title dentist_request))"
    "truthy_str (dict_get (e_start_time dentist_request))"
    by (simp_all add: dentist_request_def truthy_str_def)
  show ?thesis
    using guard
    by (simp add: create_event_def start "end" Let_def event_to_dict_def next_id_def empty_db_def)
       (simp add: dentist_request_def)
qed

subsection \<open>Omitted, null and supplied fields\<close>

text \<open>
  C3 (as amended). For the stored event an update request addresses, in a table the
  endpoints have built, and the event \<open>E'\<close> stored under the same key afterwards:
  \<^item> a field absent from the payload keeps its stored value (title, description, start
    and end instant);
  \<^item> a \<^verbatim>\<open>start_time\<close> that is \<^verbatim>\<open>null\<close> keeps the stored start instant;
  \<^item> when the request is accepted (the title is not \<^verbatim>\<open>null\<close>, and the start instant is
    absent, empty or parses), an \<^verbatim>\<open>end_time\<close> that is \<^verbatim>\<open>null\<close> clears the stored end
    instant, and an \<^verbatim>\<open>end_time\<close> whose value parses overwrites it with the parsed
    instant (with absent for the empty string).
\<close>

theorem update_event_fields:
  assumes ok: "store_ok st" and found: "get_event_or_404 eid (events st) = Some E"
  shows
    "\<exists>E'. get_event_or_404 eid (events (snd (update_event env eid data st))) = Some E'
       \<and> (e_title data = Missing \<longrightarrow> event_title E' = event_title E)
       \<and> (e_description data = Missing \<longrightarrow> event_description E' = event_description E)
       \<and> (e_start_time data = Missing \<or> e_start_time data = Null
            \<longrightarrow> event_start_time E' = event_start_time E)
       \<and> (e_end_time data = Missing \<longrightarrow> event_end_time E' = event_end_time E)
       \<and> (e_title data \<noteq> Null
            \<and> (\<exists>s. parse_datetime env (dict_get (e_start_time data)) = Inr s)
          \<longrightarrow> (e_end_time data = Null \<longrightarrow> event_end_time E' = None)
              \<and> (\<forall>v t. e_end_time data = Val v \<and> parse_datetime env (Some v) = Inr t
                     \<longrightarrow> event_end_time E' = t))"
    (is "\<exists>E'. ?Q E'")
proof -
  from get_event_or_404_Some [OF found] have E: "E \<in> set (events st)"
    by simp
  from ok E obtain title0 s0 where
    title0: "event_title E = Some title0" and s0: "event_start_time E = Some s0"
    by (auto simp: store_ok_def list_all_iff)
  show ?thesis
  proof (cases rule: update_event_outcomes [of env data])
    case (bad_start x)
    have "snd (update_event env eid data st) = st"
      unfolding update_event_bad_start [OF found bad_start] by simp
    then have "?Q E"
      using found bad_start by simp
    then show ?thesis ..
  next
    case no_title
    then have "snd (update_event env eid data st) = st"
      by (intro update_event_no_title [OF found]) simp
    then have "?Q E"
      using found no_title by simp
    then show ?thesis ..
  next
    case (bad_end s x)
    have unchanged: "snd (update_event env eid data st) = st"
      unfolding update_event_bad_end [OF found bad_end] by simp
    have a: "e_end_time data \<noteq> Missing"
      using bad_end(2) by (cases "e_end_time data") simp_all
    have b: "e_end_time data \<noteq> Null"
      using bad_end(3) by (cases "e_end_time data") (simp_all add: parse_datetime_None)
    have c: "\<And>v t. e_end_time data = Val v \<Longrightarrow> parse_datetime env (Some v) \<noteq> Inr t"
      using bad_end(3) by simp
    have "?Q E"
      unfolding unchanged using found a b c by blast
    then show ?thesis ..
  next
    case (accepted s t)
    from accepted(1) obtain title where
      title: "dict_get_default (e_title data) (event_title E) = Some title"
      and kept: "e_title data = Missing \<longrightarrow> title = title0"
      using title0 by (cases "e_title data") simp_all
    let ?E' = "E\<lparr> event_title := Some title,
              event_description := dict_get_default (e_description data) (event_description E),
              event_start_time := (case s of None \<Rightarrow> Some s0 | Some x \<Rightarrow> Some x),
              event_end_time :=
                (if dict_contains (e_end_time data) then t else event_end_time E) \<rparr>"
    have row: "get_event_or_404 eid (events (snd (update_event env eid data st))) = Some ?E'"
      by (rule update_event_row [OF found accepted(2,3) title s0])
    have q1: "e_title data = Missing \<longrightarrow> event_title ?E' = event_title E"
      using kept title0 by simp
    have q2: "e_description data = Missing \<longrightarrow> event_description ?E' = event_description E"
      by simp
    have "e_start_time data = Missing \<or> e_start_time data = Null \<Longrightarrow> s = None"
      using accepted(2) by (auto simp: parse_datetime_None)
    then have q3: "e_start_time data = Missing \<or> e_start_time data = Null
            \<longrightarrow> event_start_time ?E' = event_start_time E"
      using s0 by simp
    have q4: "e_end_time data = Missing \<longrightarrow> event_end_time ?E' = event_end_time E"
      by simp
    have q5: "e_end_time data = Null \<longrightarrow> event_end_time ?E' = None"
    proof
      assume n: "e_end_time data = Null"
      have "t = None"
        by (rule accepted_end_null [OF accepted(3) n])
      then show "event_end_time ?E' = None"
        unfolding n by simp
    qed
    have q6: "\<forall>v t'. e_end_time data = Val v \<and> parse_datetime env (Some v) = Inr t'
                     \<longrightarrow> event_end_time ?E' = t'"
    proof (intro allI impI)
      fix v t'
      assume v: "e_end_time data = Val v \<and> parse_datetime env (Some v) = Inr t'"
      have "t = t'"
        by (rule accepted_end_value [OF accepted(3) conjunct1 [OF v] conjunct2 [OF v]])
      then show "event_end_time ?E' = t'"
        using v by simp
    qed
    show ?thesis
      apply (rule exI [of _ "?E'"])
      apply (intro conjI)
           apply (rule row)
          apply (rule q1)
         apply (rule q2)
        apply (rule q3)
       apply (rule q4)
      apply (rule impI)
      apply (rule conjI)
       apply (rule q5)
      apply (rule q6)
      done
  qed
qed

theorem update_event_fields_witness:
  "map event_end_time (events (snd (create_event ref_env dentist_request empty_db)))
     = [Some (DateTime 738900 37800000000 (Some 0))]
   \<and> (\<exists>E'. get_event_or_404 1
              (events (snd (update_event ref_env 1 clear_end_update
                             (snd (create_event ref_env dentist_request empty_db))))) = Some E'
          \<and> event_title E' = Some ''Dentist''
          \<and> event_start_time E' = Some (DateTime 738900 34200000000 (Some 0))
          \<and> event_end_time E' = None)"
proof -
  have ok: "store_ok (snd (create_event ref_env dentist_request empty_db))"
    by (intro store_ok_create_event store_ok_empty)
  have found: "get_event_or_404 1 (events (snd (create_event ref_env dentist_request empty_db))) =
     Some \<lparr> event_id = 1,
          event_title = Some ''Dentist'',
          event_description = None,
          event_start_time = Some (DateTime 738900 34200000000 (Some 0)),
          event_end_time = Some (DateTime 738900 37800000000 (Some 0)),
          event_created_at = Some (now ref_env 0) \<rparr>"
    unfolding dentist_store by (simp add: get_event_or_404_def empty_db_def)
  have start: "parse_datetime ref_env (dict_get (e_start_time clear_end_update)) = Inr None"
    by (simp add: clear_end_update_def parse_datetime_None)
  have "map event_end_time (events (snd (create_event ref_env dentist_request empty_db)))
     = [Some (DateTime 738900 37800000000 (Some 0))]"
    unfolding dentist_store by (simp add: empty_db_def)
  then show ?thesis
    using update_event_fields [OF ok found, of ref_env clear_end_update] start
    by (auto simp: clear_end_update_def)
qed

text \<open>
  C3 as stated fails for an \<^verbatim>\<open>end_time\<close> that is not an instant: the key is in the
  payload, but \<^verbatim>\<open>fromisoformat\<close> raises \<^verbatim>\<open>ValueError\<close>, the request ends in an
  unhandled error, and the stored end instant is not overwritten.
\<close>

theorem update_event_bad_end_counterexample:
  "dict_contains (e_end_time bad_end_update)
   \<and> fst (update_event ref_env 1 bad_end_update
            (snd (create_event ref_env dentist_request empty_db))) = Unhandled ValueError
   \<and> map event_end_time
        (events (snd (update_event ref_env 1 bad_end_update
                        (snd (create_event ref_env dentist_request empty_db)))))
       = [Some (DateTime 738900 37800000000 (Some 0))]"
proof -
  have found: "get_event_or_404 1 (events (snd (create_event ref_env dentist_request empty_db))) =
     Some \<lparr> event_id = 1,
          event_title = Some ''Dentist'',
          event_description = None,
          event_start_time = Some (DateTime 738900 34200000000 (Some 0)),
          event_end_time = Some (DateTime 738900 37800000000 (Some 0)),
          event_created_at = Some (now ref_env 0) \<rparr>"
    unfolding dentist_store by (simp add: get_event_or_404_def empty_db_def)
  have start: "parse_datetime ref_env (dict_get (e_start_time bad_end_update)) = Inr None"
    by (simp add: bad_end_update_def parse_datetime_None)
  have present: "dict_contains (e_end_time bad_end_update)"
    by (simp add: bad_end_update_def)
  have bad: "parse_datetime ref_env (dict_get (e_end_time bad_end_update)) = Inl ValueError"
    by (simp add: bad_end_update_def parse_datetime_def ref_parse_defs)
  show ?thesis
    unfolding update_event_bad_end [OF found start present bad]
    using present by (simp add: dentist_store)
qed

end
